theory Spec2Isabelle
  imports Complex_Main "HOL-Library.Char_ord" "HOL-Library.List_Lexorder" "HOL-Library.Sublist"
begin

section \<open>Python strings\<close>

text \<open>
  A Python \<open>str\<close> is modelled as a \<^typ>\<open>string\<close>, each \<^typ>\<open>char\<close> read as the
  code point of the same number (0 to 255, the first two blocks of Unicode). The
  character classes below are the ones CPython uses on that range: \<open>str.isspace\<close>
  (also the class \<open>\s\<close> of \<open>re\<close> and the characters removed by \<open>str.strip\<close>),
  \<open>str.isalnum\<close>, and the class \<open>\w\<close> of \<open>re\<close> (alphanumeric or underscore).
\<close>

definition isspace :: "char \<Rightarrow> bool" where
  "isspace c = (let n = (of_char c :: nat) in
     (9 \<le> n \<and> n \<le> 13) \<or> (28 \<le> n \<and> n \<le> 32) \<or> n = 133 \<or> n = 160)"

definition isalnum :: "char \<Rightarrow> bool" where
  "isalnum c = (let n = (of_char c :: nat) in
     (48 \<le> n \<and> n \<le> 57) \<or> (65 \<le> n \<and> n \<le> 90) \<or> (97 \<le> n \<and> n \<le> 122) \<or>
     n = 170 \<or> n = 178 \<or> n = 179 \<or> n = 181 \<or> n = 185 \<or> n = 186 \<or>
     (188 \<le> n \<and> n \<le> 190) \<or> (192 \<le> n \<and> n \<le> 214) \<or>
     (216 \<le> n \<and> n \<le> 246) \<or> (248 \<le> n \<and> n \<le> 255))"

definition isword :: "char \<Rightarrow> bool" where
  "isword c = (isalnum c \<or> c = CHR ''_'')"

text \<open>\<open>s.strip()\<close>: leading and trailing whitespace removed.\<close>

definition lstrip :: "string \<Rightarrow> string" where
  "lstrip s = dropWhile isspace s"

definition rstrip :: "string \<Rightarrow> string" where
  "rstrip s = rev (dropWhile isspace (rev s))"

definition strip :: "string \<Rightarrow> string" where
  "strip s = rstrip (lstrip s)"

text \<open>\<open>s.startswith(p)\<close> and \<open>s.endswith(p)\<close>.\<close>

definition startswith :: "string \<Rightarrow> string \<Rightarrow> bool" where
  "startswith s p = (take (length p) s = p)"

definition endswith :: "string \<Rightarrow> string \<Rightarrow> bool" where
  "endswith s p = (length p \<le> length s \<and> drop (length s - length p) s = p)"

text \<open>\<open>sep.join(xs)\<close>.\<close>

fun join :: "string \<Rightarrow> string list \<Rightarrow> string" where
  "join sep [] = []"
| "join sep [x] = x"
| "join sep (x # y # ys) = x @ sep @ join sep (y # ys)"

text \<open>\<open>sub in s\<close> on strings: \<open>sub\<close> occurs in \<open>s\<close> as a contiguous piece.\<close>

fun contains :: "string \<Rightarrow> string \<Rightarrow> bool" where
  "contains [] sub = (sub = [])"
| "contains (c # cs) sub = (startswith (c # cs) sub \<or> contains cs sub)"

text \<open>\<open>s.lower()\<close>: on this range the capital letters are A to Z and the accented
  capitals 192 to 222 without the multiplication sign 215; each moves up by 32.\<close>

definition lower_chr :: "char \<Rightarrow> char" where
  "lower_chr c = (let n = (of_char c :: nat) in
     if (65 \<le> n \<and> n \<le> 90) \<or> (192 \<le> n \<and> n \<le> 214) \<or> (216 \<le> n \<and> n \<le> 222)
     then char_of (n + 32) else c)"

definition lower :: "string \<Rightarrow> string" where
  "lower s = map lower_chr s"

text \<open>\<open>s.split()\<close>: the maximal runs of characters that are not whitespace.
  \<open>cur\<close> is the run being read.\<close>

fun split_ws_from :: "string \<Rightarrow> string \<Rightarrow> string list" where
  "split_ws_from cur [] = (if cur = [] then [] else [cur])"
| "split_ws_from cur (c # cs) =
     (if isspace c then (if cur = [] then split_ws_from [] cs else cur # split_ws_from [] cs)
      else split_ws_from (cur @ [c]) cs)"

definition split_ws :: "string \<Rightarrow> string list" where
  "split_ws s = split_ws_from [] s"

text \<open>\<open>s.split('\n')\<close>: the pieces between line feeds, empty pieces kept.\<close>

fun split_nl_from :: "string \<Rightarrow> string \<Rightarrow> string list" where
  "split_nl_from cur [] = [cur]"
| "split_nl_from cur (c # cs) =
     (if c = CHR ''\<newline>'' then cur # split_nl_from [] cs else split_nl_from (cur @ [c]) cs)"

definition split_nl :: "string \<Rightarrow> string list" where
  "split_nl s = split_nl_from [] s"

section \<open>Python values, exceptions, the clock\<close>

text \<open>
  The values that travel through dictionaries and JSON bodies. A \<open>dict\<close> is an
  association list in insertion order, read with \<^const>\<open>map_of\<close>. A float is given by
  the rational number it stands for.
\<close>

datatype pyval =
    PNone
  | PBool bool
  | PInt int
  | PFloat rat
  | PStr string
  | PList "pyval list"
  | PDict "(string \<times> pyval) list"

type_synonym pydict = "(string \<times> pyval) list"

text \<open>Truth value of a Python object (\<open>if not data\<close>).\<close>

fun truthy :: "pyval \<Rightarrow> bool" where
  "truthy PNone = False"
| "truthy (PBool b) = b"
| "truthy (PInt i) = (i \<noteq> 0)"
| "truthy (PFloat q) = (q \<noteq> 0)"
| "truthy (PStr s) = (s \<noteq> [])"
| "truthy (PList xs) = (xs \<noteq> [])"
| "truthy (PDict kvs) = (kvs \<noteq> [])"

text \<open>An exception: its class name and \<open>str(e)\<close>.\<close>

datatype exn = Exn (exn_class: string) (exn_str: string)

text \<open>A reading of \<open>datetime.now()\<close> (a year of four digits), and the two formats
  the code uses: \<open>%Y%m%d_%H%M%S\<close> and \<open>%Y-%m-%d %H:%M:%S\<close>.\<close>

record datetime =
  year :: nat
  month :: nat
  day :: nat
  hour :: nat
  minute :: nat
  second :: nat

definition digit :: "nat \<Rightarrow> char" where
  "digit n = char_of (48 + n mod 10)"

definition pad2 :: "nat \<Rightarrow> string" where
  "pad2 n = [digit (n div 10), digit n]"

definition pad4 :: "nat \<Rightarrow> string" where
  "pad4 n = [digit (n div 1000), digit (n div 100), digit (n div 10), digit n]"

definition strftime_compact :: "datetime \<Rightarrow> string" where
  "strftime_compact t =
     pad4 (year t) @ pad2 (month t) @ pad2 (day t) @ ''_''
     @ pad2 (hour t) @ pad2 (minute t) @ pad2 (second t)"

definition strftime_iso :: "datetime \<Rightarrow> string" where
  "strftime_iso t =
     pad4 (year t) @ ''-'' @ pad2 (month t) @ ''-'' @ pad2 (day t) @ '' ''
     @ pad2 (hour t) @ '':'' @ pad2 (minute t) @ '':'' @ pad2 (second t)"

section \<open>gemini\_utils.py\<close>

text \<open>
  \<open>GeminiClient._retry_with_backoff\<close>. \<open>func\<close> is called once per attempt; its
  answer at the attempt of a given number is \<open>func attempt\<close>, a value or the exception it
  raised. The second component of the result lists the arguments of \<open>time.sleep\<close>, in
  the order of the calls.
\<close>

definition is_rate_limit :: "exn \<Rightarrow> bool" where
  "is_rate_limit e = (contains (exn_str e) ''429'' \<or> contains (lower (exn_str e)) ''quota'')"

definition max_retries_exceeded :: exn where
  "max_retries_exceeded = Exn ''Exception'' ''Max retries exceeded for API call''"

function retry_loop ::
    "(nat \<Rightarrow> exn + 'a) \<Rightarrow> nat \<Rightarrow> nat \<Rightarrow> nat list \<Rightarrow> (exn + 'a) \<times> nat list" where
  "retry_loop func max_retries attempt slept =
     (if attempt < max_retries then
        (case func attempt of
           Inr v \<Rightarrow> (Inr v, slept)
         | Inl e \<Rightarrow>
             if is_rate_limit e then
               (let wait_time = (2 ^ attempt) * 2
                in retry_loop func max_retries (Suc attempt) (slept @ [wait_time]))
             else (Inl e, slept))
      else (Inl max_retries_exceeded, slept))"
  by pat_completeness auto
termination
  by (relation "measure (\<lambda>(func, max_retries, attempt, slept). max_retries - attempt)") auto

definition retry_with_backoff :: "(nat \<Rightarrow> exn + 'a) \<Rightarrow> nat \<Rightarrow> (exn + 'a) \<times> nat list" where
  "retry_with_backoff func max_retries = retry_loop func max_retries 0 []"

text \<open>
  The model behind \<open>self.model.generate_content(prompt)\<close> followed by
  \<open>response.text\<close>: for a prompt and the number of the attempt, the text or the
  exception raised.
\<close>

type_synonym model = "string \<Rightarrow> nat \<Rightarrow> exn + string"

text \<open>The instruction tables, read with \<open>dict.get(key, default)\<close>.\<close>

definition depth_instructions :: "(string \<times> string) list" where
  "depth_instructions =
    [(''brief'', ''Provide a concise 2-3 paragraph explanation suitable for quick reference.''),
     (''intermediate'', ''Provide a moderate explanation with key concepts, examples, and use cases in 4-6 paragraphs.''),
     (''comprehensive'', ''Provide an in-depth explanation covering:\<newline>            1. Introduction and definition\<newline>            2. Mathematical foundations (with LaTeX notation where appropriate)\<newline>            3. How it works step-by-step\<newline>            4. Key components/variants\<newline>            5. Practical applications\<newline>            6. Advantages and limitations\<newline>            7. Related concepts'')]"

definition complexity_instructions :: "(string \<times> string) list" where
  "complexity_instructions =
    [(''basic'', ''Simple implementation with minimal dependencies, focusing on core concept.''),
     (''intermediate'', ''Complete implementation with proper structure, comments, and visualization.''),
     (''advanced'', ''Production-ready code with error handling, optimization, and comprehensive documentation.'')]"

definition type_instructions :: "(string \<times> string) list" where
  "type_instructions =
    [(''architecture'', ''Create a clear system/neural network architecture diagram showing components and data flow.''),
     (''flowchart'', ''Create a step-by-step flowchart showing the algorithm or process flow.''),
     (''concept_map'', ''Create a concept map showing relationships between related ideas.''),
     (''visualization'', ''Create a data visualization or mathematical illustration of the concept.'')]"

definition dict_get :: "(string \<times> 'v) list \<Rightarrow> string \<Rightarrow> 'v \<Rightarrow> 'v" where
  "dict_get d k dflt = (case map_of d k of Some v \<Rightarrow> v | None \<Rightarrow> dflt)"

definition text_prompt :: "string \<Rightarrow> string \<Rightarrow> string" where
  "text_prompt topic depth =
     ''You are an expert Machine Learning educator. Generate a clear, educational explanation about:\<newline>\<newline>**Topic:** ''
     @ topic @ ''\<newline>\<newline>**Depth Level:** '' @ depth @ ''\<newline>''
     @ dict_get depth_instructions depth (dict_get depth_instructions ''comprehensive'' [])
     @ ''\<newline>\<newline>Format your response in clean Markdown with:\<newline>- Clear section headers using ##\<newline>- Code snippets where relevant (use ```python)\<newline>- Mathematical expressions where appropriate\<newline>- Bullet points for lists\<newline>- Bold for key terms\<newline>\<newline>Make the content accessible yet technically accurate. Use analogies where helpful.''"

definition code_prompt :: "string \<Rightarrow> string \<Rightarrow> string" where
  "code_prompt topic complexity =
     ''You are an expert Python developer specializing in Machine Learning. Generate working Python code for:\<newline>\<newline>**Topic:** ''
     @ topic @ ''\<newline>\<newline>**Complexity:** '' @ complexity @ ''\<newline>''
     @ dict_get complexity_instructions complexity
         (dict_get complexity_instructions ''intermediate'' [])
     @ ''\<newline>\<newline>Requirements:\<newline>1. Write complete, runnable Python code\<newline>2. Include detailed comments explaining each section\<newline>3. Add docstrings for functions/classes\<newline>4. Include example usage with sample data\<newline>5. Add visualization where appropriate (matplotlib/seaborn)\<newline>6. Print meaningful output to demonstrate functionality\<newline>\<newline>Format:\<newline>- Start with necessary imports\<newline>- Include a main() function or if __name__ == ''
     @ [CHR 0x22] @ ''__main__'' @ [CHR 0x22]
     @ '': block\<newline>- Make code Google Colab compatible\<newline>\<newline>Return ONLY the Python code without any markdown formatting or explanation outside the code.''"

definition audio_prompt :: "string \<Rightarrow> string" where
  "audio_prompt topic =
     ''You are creating an educational audio lesson about Machine Learning. Generate a conversational, spoken explanation about:\<newline>\<newline>**Topic:** ''
     @ topic
     @ ''\<newline>\<newline>Requirements:\<newline>1. Write as if speaking to a student - natural, conversational tone\<newline>2. Avoid visual references (no ''
     @ [CHR 0x22] @ ''as you can see'' @ [CHR 0x22] @ '', '' @ [CHR 0x22] @ ''in the diagram'' @ [CHR 0x22]
     @ '')\<newline>3. Use clear transitions between ideas\<newline>4. Keep sentences moderate length for TTS clarity\<newline>5. Include pauses by using periods appropriately\<newline>6. Explain complex terms when first introduced\<newline>7. Target length: 3-5 minutes of speaking time (roughly 500-800 words)\<newline>\<newline>Write ONLY the spoken script without stage directions or formatting.''"

definition image_prompt_prompt :: "string \<Rightarrow> string \<Rightarrow> string" where
  "image_prompt_prompt topic diagram_type =
     ''Create a detailed prompt for generating an educational diagram about:\<newline>\<newline>**Topic:** ''
     @ topic @ ''\<newline>**Diagram Type:** '' @ diagram_type @ ''\<newline>\<newline>''
     @ dict_get type_instructions diagram_type (dict_get type_instructions ''architecture'' [])
     @ ''\<newline>\<newline>The prompt should describe:\<newline>1. Layout and structure\<newline>2. Key components to include\<newline>3. Labels and annotations\<newline>4. Color scheme (professional, educational style)\<newline>5. Visual style (clean, modern, technical)\<newline>\<newline>Return a single detailed paragraph that can be used for image generation.''"

text \<open>The clean-up of \<open>generate_code_example\<close> (the lines after the model call):
  \<open>code[9:]\<close>, \<open>code[3:]\<close> and \<open>code[:-3]\<close> on a string that is long enough.\<close>

definition clean_code :: "string \<Rightarrow> string" where
  "clean_code response_text =
     (let code = strip response_text;
          code = (if startswith code ''```python'' then drop 9 code
                  else if startswith code ''```'' then drop 3 code
                  else code);
          code = (if endswith code ''```'' then take (length code - 3) code else code)
      in strip code)"

text \<open>The four generators. Each returns the dictionary it builds or the exception that
  leaves it, and the sleeps of its retry loop.\<close>

definition generate_text_explanation ::
    "model \<Rightarrow> string \<Rightarrow> string \<Rightarrow> (exn + pydict) \<times> nat list" where
  "generate_text_explanation m topic depth =
     (case retry_with_backoff (m (text_prompt topic depth)) 3 of
        (Inl e, slept) \<Rightarrow> (Inl e, slept)
      | (Inr content, slept) \<Rightarrow>
          (Inr [(''topic'', PStr topic), (''depth'', PStr depth),
                (''content'', PStr content), (''success'', PBool True)], slept))"

definition generate_code_example ::
    "model \<Rightarrow> string \<Rightarrow> string \<Rightarrow> (exn + pydict) \<times> nat list" where
  "generate_code_example m topic complexity =
     (case retry_with_backoff (m (code_prompt topic complexity)) 3 of
        (Inl e, slept) \<Rightarrow> (Inl e, slept)
      | (Inr code, slept) \<Rightarrow>
          (Inr [(''topic'', PStr topic), (''complexity'', PStr complexity),
                (''code'', PStr (clean_code code)), (''success'', PBool True)], slept))"

definition generate_audio_script :: "model \<Rightarrow> string \<Rightarrow> (exn + pydict) \<times> nat list" where
  "generate_audio_script m topic =
     (case retry_with_backoff (m (audio_prompt topic)) 3 of
        (Inl e, slept) \<Rightarrow> (Inl e, slept)
      | (Inr script, slept) \<Rightarrow>
          (Inr [(''topic'', PStr topic), (''script'', PStr (strip script)),
                (''success'', PBool True)], slept))"

definition generate_image_prompt ::
    "model \<Rightarrow> string \<Rightarrow> string \<Rightarrow> (exn + pydict) \<times> nat list" where
  "generate_image_prompt m topic diagram_type =
     (case retry_with_backoff (m (image_prompt_prompt topic diagram_type)) 3 of
        (Inl e, slept) \<Rightarrow> (Inl e, slept)
      | (Inr image_prompt, slept) \<Rightarrow>
          (Inr [(''topic'', PStr topic), (''diagram_type'', PStr diagram_type),
                (''prompt'', PStr (strip image_prompt)), (''success'', PBool True)], slept))"

section \<open>code\_utils.py: setup instructions\<close>

text \<open>\<open>CodeProcessor._generate_colab_setup\<close>. An empty list is the only falsy list.\<close>

definition colab_preinstalled :: "string set" where
  "colab_preinstalled = {''numpy'', ''pandas'', ''matplotlib'', ''seaborn'',
     ''scikit-learn'', ''tensorflow'', ''keras''}"

definition generate_colab_setup :: "string list \<Rightarrow> string" where
  "generate_colab_setup packages =
     (if packages = [] then ''# No additional packages required - ready to run!''
      else
        let packages_to_install = filter (\<lambda>p. p \<notin> colab_preinstalled) packages in
        if packages_to_install = [] then
          ''# All required packages are pre-installed in Google Colab!''
        else
          ''# Run this cell first to install required packages\<newline>!pip install ''
          @ join '' '' packages_to_install
          @ ''\<newline>\<newline># Then run the main code below'')"

text \<open>\<open>CodeProcessor._generate_local_setup\<close>.\<close>

definition generate_local_setup :: "string list \<Rightarrow> string" where
  "generate_local_setup packages =
     (if packages = [] then ''No additional packages required.''
      else
        ''## Local Setup Instructions\<newline>\<newline>1. Create a virtual environment (recommended):\<newline>   ```bash\<newline>   python -m venv ml_env\<newline>   source ml_env/bin/activate  # On Windows: ml_env''
        @ [CHR 0x5C] @ ''Scripts'' @ [CHR 0x5C]
        @ ''activate\<newline>   ```\<newline>\<newline>2. Install required packages:\<newline>   ```bash\<newline>   pip install ''
        @ join '' '' packages
        @ ''\<newline>   ```\<newline>\<newline>3. Run the code:\<newline>   ```bash\<newline>   python your_script.py\<newline>   ```'')"

section \<open>code\_utils.py: dependency detection\<close>

text \<open>\<open>os.path.join(a, b)\<close> of \<open>posixpath\<close>, for two components.\<close>

definition path_join :: "string \<Rightarrow> string \<Rightarrow> string" where
  "path_join a b =
     (if startswith b ''/'' then b
      else if a = [] \<or> endswith a ''/'' then a @ b
      else a @ ''/'' @ b)"

definition KNOWN_PACKAGES :: "(string \<times> string) list" where
  "KNOWN_PACKAGES =
    [(''numpy'', ''numpy''), (''np'', ''numpy''), (''pandas'', ''pandas''), (''pd'', ''pandas''),
     (''matplotlib'', ''matplotlib''), (''plt'', ''matplotlib''), (''seaborn'', ''seaborn''),
     (''sns'', ''seaborn''), (''sklearn'', ''scikit-learn''), (''tensorflow'', ''tensorflow''),
     (''tf'', ''tensorflow''), (''keras'', ''keras''), (''torch'', ''torch''),
     (''cv2'', ''opencv-python''), (''PIL'', ''Pillow''), (''scipy'', ''scipy''),
     (''xgboost'', ''xgboost''), (''lightgbm'', ''lightgbm''), (''nltk'', ''nltk''),
     (''spacy'', ''spacy''), (''transformers'', ''transformers''), (''datasets'', ''datasets''),
     (''tqdm'', ''tqdm''), (''requests'', ''requests''), (''bs4'', ''beautifulsoup4''),
     (''networkx'', ''networkx'')]"

definition stdlib_modules :: "string list" where
  "stdlib_modules =
    [''os'', ''sys'', ''math'', ''random'', ''time'', ''datetime'', ''json'',
     ''collections'', ''itertools'', ''functools'', ''typing'', ''re'',
     ''copy'', ''pickle'', ''csv'', ''io'', ''string'', ''textwrap'',
     ''struct'', ''codecs'', ''unicodedata'', ''warnings'', ''logging'',
     ''abc'', ''contextlib'', ''pathlib'', ''tempfile'', ''shutil'',
     ''argparse'', ''configparser'', ''hashlib'', ''secrets'',
     ''threading'', ''multiprocessing'', ''queue'', ''asyncio'',
     ''unittest'', ''doctest'', ''pdb'', ''timeit'', ''statistics'',
     ''dataclasses'', ''enum'', ''numbers'', ''decimal'', ''fractions'']"

definition is_stdlib :: "string \<Rightarrow> bool" where
  "is_stdlib module_name = (module_name \<in> set stdlib_modules)"

text \<open>
  \<open>re.match(pattern, line)\<close> for the two patterns \<open>^import\s+(\w+)\<close> and
  \<open>^from\s+(\w+)\<close>, given by their keyword: the line starts with the keyword, at least
  one whitespace character follows, and after all the whitespace comes at least one
  word character. Group 1 is the longest run of word characters there. (Whitespace and
  word characters are disjoint, so the greedy match has no other way to succeed.)
\<close>

definition re_match :: "string \<Rightarrow> string \<Rightarrow> string option" where
  "re_match keyword line =
     (if startswith line keyword then
        let rest = drop (length keyword) line;
            after = dropWhile isspace rest;
            module_name = takeWhile isword after
        in if length after < length rest \<and> module_name \<noteq> [] then Some module_name else None
      else None)"

definition import_patterns :: "string list" where
  "import_patterns = [''import'', ''from'']"

text \<open>The body of the inner loop, on the two sets \<open>imports\<close> and \<open>pip_packages\<close>.\<close>

definition scan_pattern :: "string \<Rightarrow> string set \<times> string set \<Rightarrow> string \<Rightarrow> string set \<times> string set" where
  "scan_pattern line st pattern =
     (case re_match pattern line of
        None \<Rightarrow> st
      | Some module_name \<Rightarrow>
          (insert module_name (fst st),
           case map_of KNOWN_PACKAGES module_name of
             Some package \<Rightarrow> insert package (snd st)
           | None \<Rightarrow> if \<not> is_stdlib module_name then insert module_name (snd st) else snd st))"

definition scan_line :: "string set \<times> string set \<Rightarrow> string \<Rightarrow> string set \<times> string set" where
  "scan_line st line = foldl (scan_pattern (strip line)) st import_patterns"

definition scan_code :: "string \<Rightarrow> string set \<times> string set" where
  "scan_code code = foldl scan_line ({}, {}) (split_nl code)"

text \<open>\<open>CodeProcessor.detect_dependencies\<close>. \<open>sorted\<close> orders strings by code points,
  which is the lexicographic order of \<^typ>\<open>string\<close>.\<close>

definition detect_dependencies :: "string \<Rightarrow> pydict" where
  "detect_dependencies code =
     (let imports = fst (scan_code code);
          pip_packages = snd (scan_code code)
      in [(''imports'', PList (map PStr (sorted_list_of_set imports))),
          (''pip_packages'', PList (map PStr (sorted_list_of_set pip_packages))),
          (''install_command'',
             if pip_packages \<noteq> {}
             then PStr (''pip install '' @ join '' '' (sorted_list_of_set pip_packages))
             else PNone)])"

text \<open>The list of strings held by a value (\<open>dependencies['pip_packages']\<close>).\<close>

fun str_of :: "pyval \<Rightarrow> string" where
  "str_of (PStr s) = s"
| "str_of _ = []"

fun strs_of :: "pyval \<Rightarrow> string list" where
  "strs_of (PList vs) = map str_of vs"
| "strs_of _ = []"

text \<open>\<open>CodeProcessor.format_code_response\<close>.\<close>

definition format_code_response :: "string \<Rightarrow> string \<Rightarrow> string \<Rightarrow> pydict" where
  "format_code_response code topic complexity =
     (let dependencies = detect_dependencies code;
          packages = strs_of (dict_get dependencies ''pip_packages'' PNone);
          colab_setup = generate_colab_setup packages;
          local_setup = generate_local_setup packages
      in [(''code'', PStr code), (''topic'', PStr topic), (''complexity'', PStr complexity),
          (''dependencies'', PDict dependencies), (''colab_setup'', PStr colab_setup),
          (''local_setup'', PStr local_setup),
          (''line_count'', PInt (int (length (split_nl code))))])"

section \<open>code\_utils.py: saving the code\<close>

text \<open>\<open>"".join(c if c.isalnum() else "_" for c in topic[:30])\<close>.\<close>

definition safe_topic :: "string \<Rightarrow> string" where
  "safe_topic topic = map (\<lambda>c. if isalnum c then c else CHR ''_'') (take 30 topic)"

text \<open>The file name of \<open>save_code_file\<close>: \<open>not filename\<close> holds for \<open>None\<close> and for
  the empty string, and then the name is generated; \<open>now\<close> is the reading of the clock.\<close>

definition code_filename :: "datetime \<Rightarrow> string \<Rightarrow> string option \<Rightarrow> string" where
  "code_filename now topic filename =
     (let generated =
            (let timestamp = strftime_compact now
             in safe_topic topic @ ''_'' @ timestamp @ ''.py'');
          filename =
            (case filename of
               None \<Rightarrow> generated
             | Some given \<Rightarrow> if given = [] then generated else given)
      in if \<not> endswith filename ''.py'' then filename @ ''.py'' else filename)"

definition code_header :: "datetime \<Rightarrow> string \<Rightarrow> string" where
  "code_header now topic =
     [CHR 0x22, CHR 0x22, CHR 0x22]
     @ ''\<newline>Generated by GyanGuru - AI ML Learning Assistant\<newline>Topic: '' @ topic
     @ ''\<newline>Generated: '' @ strftime_iso now @ ''\<newline>''
     @ [CHR 0x22, CHR 0x22, CHR 0x22] @ ''\<newline>\<newline>''"

text \<open>
  \<open>CodeProcessor.save_code_file\<close>. \<open>write path content\<close> is what opening \<open>path\<close> for
  writing and writing \<open>content\<close> does: \<open>None\<close> when it succeeds, the exception
  otherwise. \<open>now1\<close> and \<open>now2\<close> are the two readings of the clock. The result comes with
  the files written, as pairs of path and content.
\<close>

definition save_code_file ::
    "string \<Rightarrow> datetime \<Rightarrow> datetime \<Rightarrow> (string \<Rightarrow> string \<Rightarrow> exn option) \<Rightarrow>
     string \<Rightarrow> string \<Rightarrow> string option \<Rightarrow> pydict \<times> (string \<times> string) list" where
  "save_code_file output_dir now1 now2 write code topic filename =
     (let filename = code_filename now1 topic filename;
          filepath = path_join output_dir filename;
          header = code_header now2 topic
      in case write filepath (header @ code) of
           None \<Rightarrow>
             ([(''success'', PBool True), (''filepath'', PStr filepath),
               (''filename'', PStr filename),
               (''relative_path'', PStr (''/static/generated/code/'' @ filename))],
              [(filepath, header @ code)])
         | Some e \<Rightarrow>
             ([(''success'', PBool False), (''error'', PStr (exn_str e)),
               (''filepath'', PNone)], []))"

section \<open>tts\_utils.py\<close>

text \<open>
  \<open>round(x, 1)\<close> on the exact value: the nearest multiple of one tenth, the even one
  when two are equally near. The float Python returns is the double nearest to it.
\<close>

definition round1 :: "rat \<Rightarrow> rat" where
  "round1 x =
     (let s = x * 10; f = \<lfloor>s\<rfloor>; d = s - of_int f
      in of_int (if d < 1 / 2 then f else if 1 / 2 < d then f + 1
                 else if even f then f else f + 1) / 10)"

text \<open>
  \<open>TextToSpeech.text_to_speech\<close>. \<open>audio_filename\<close> is the file name its first lines
  compute. \<open>speak text language slow filepath\<close> is what building the \<open>gTTS\<close> object and
  saving it does: \<open>None\<close> when it succeeds, the exception otherwise.
\<close>

definition audio_filename :: "datetime \<Rightarrow> string option \<Rightarrow> string" where
  "audio_filename now filename =
     (let generated = (let timestamp = strftime_compact now in ''audio_lesson_'' @ timestamp);
          filename =
            (case filename of
               None \<Rightarrow> generated
             | Some given \<Rightarrow> if given = [] then generated else given)
      in if \<not> endswith filename ''.mp3'' then filename @ ''.mp3'' else filename)"

definition text_to_speech ::
    "string \<Rightarrow> datetime \<Rightarrow> (string \<Rightarrow> string \<Rightarrow> bool \<Rightarrow> string \<Rightarrow> exn option) \<Rightarrow>
     string \<Rightarrow> string option \<Rightarrow> string \<Rightarrow> bool \<Rightarrow> pydict" where
  "text_to_speech output_dir now speak text filename language slow =
     (let filename = audio_filename now filename;
          filepath = path_join output_dir filename
      in case speak text language slow filepath of
           None \<Rightarrow>
             (let word_count = length (split_ws text);
                  estimated_duration = round1 (of_nat word_count / 150)
              in [(''success'', PBool True), (''filepath'', PStr filepath),
                  (''filename'', PStr filename),
                  (''relative_path'', PStr (''/static/generated/audio/'' @ filename)),
                  (''word_count'', PInt (int word_count)),
                  (''estimated_duration_minutes'', PFloat estimated_duration),
                  (''language'', PStr language)])
         | Some e \<Rightarrow>
             [(''success'', PBool False), (''error'', PStr (exn_str e)), (''filepath'', PNone)])"

section \<open>image\_utils.py\<close>

text \<open>
  The world of the image generator. \<open>backend\<close> is the call of the image model on the
  enhanced prompt: the exception it raises, or for each candidate of the response its
  list of parts. A part carries its inline data when it has some (\<open>hasattr(part,
  'inline_data') and part.inline_data\<close>). \<open>b64decode\<close> is \<open>base64.b64decode\<close>,
  \<open>write_file path bytes\<close> is opening \<open>path\<close> for binary writing and writing \<open>bytes\<close>,
  \<open>save_placeholder topic diagram_type path\<close> is drawing the placeholder and saving it
  at \<open>path\<close>; for the last two \<open>None\<close> is success.
\<close>

datatype part = Part (inline_data: "string option")

record image_env =
  backend :: "string \<Rightarrow> exn + part list list"
  b64decode :: "string \<Rightarrow> exn + string"
  write_file :: "string \<Rightarrow> string \<Rightarrow> exn option"
  save_placeholder :: "string \<Rightarrow> string \<Rightarrow> string \<Rightarrow> exn option"

text \<open>What a call leaves behind: files written, lines printed, placeholders saved.\<close>

datatype event =
    WriteFile string string
  | Print string
  | SavePlaceholder string string string

definition enhanced_prompt :: "string \<Rightarrow> string" where
  "enhanced_prompt prompt =
     ''Create a professional educational diagram:\<newline>\<newline>'' @ prompt
     @ ''\<newline>\<newline>Style requirements:\<newline>- Clean, modern technical illustration style\<newline>- Professional color scheme (blues, teals, grays)\<newline>- Clear labels and annotations\<newline>- White or light background\<newline>- High contrast for readability\<newline>- No text errors or gibberish\<newline>''"

text \<open>The file name of \<open>generate_diagram\<close>.\<close>

definition diagram_filename :: "datetime \<Rightarrow> string \<Rightarrow> string \<Rightarrow> string option \<Rightarrow> string" where
  "diagram_filename now topic diagram_type filename =
     (let generated =
            (let timestamp = strftime_compact now
             in safe_topic topic @ ''_'' @ diagram_type @ ''_'' @ timestamp @ ''.png'')
      in case filename of
           None \<Rightarrow> generated
         | Some given \<Rightarrow> if given = [] then generated else given)"

text \<open>\<open>ImageGenerator._create_placeholder_image\<close>: its whole body is under \<open>try\<close>.\<close>

definition create_placeholder_image ::
    "image_env \<Rightarrow> string \<Rightarrow> string \<Rightarrow> string \<Rightarrow> string \<Rightarrow> (exn + pydict) \<times> event list" where
  "create_placeholder_image env topic diagram_type filename filepath =
     (case save_placeholder env topic diagram_type filepath of
        None \<Rightarrow>
          (Inr [(''success'', PBool True), (''filepath'', PStr filepath),
                (''filename'', PStr filename),
                (''relative_path'', PStr (''/static/generated/images/'' @ filename)),
                (''topic'', PStr topic), (''diagram_type'', PStr diagram_type),
                (''method'', PStr ''placeholder''),
                (''note'', PStr ''Placeholder image - Gemini image generation unavailable'')],
           [SavePlaceholder topic diagram_type filepath])
      | Some e \<Rightarrow>
          (Inr [(''success'', PBool False),
                (''error'', PStr (''Failed to create placeholder: '' @ exn_str e)),
                (''filepath'', PNone)], []))"

text \<open>
  The loop over the parts: the first part with inline data is decoded and written, and
  the function returns from there (\<open>True\<close>); an exception leaves the loop; without such
  a part the loop ends (\<open>False\<close>).
\<close>

fun use_parts :: "image_env \<Rightarrow> string \<Rightarrow> part list \<Rightarrow> (exn + bool) \<times> event list" where
  "use_parts env filepath [] = (Inr False, [])"
| "use_parts env filepath (p # ps) =
     (case inline_data p of
        None \<Rightarrow> use_parts env filepath ps
      | Some d \<Rightarrow>
          (case b64decode env d of
             Inl e \<Rightarrow> (Inl e, [])
           | Inr image_data \<Rightarrow>
               (case write_file env filepath image_data of
                  Some e \<Rightarrow> (Inl e, [])
                | None \<Rightarrow> (Inr True, [WriteFile filepath image_data]))))"

text \<open>The inner \<open>try\<close> block.\<close>

definition primary_attempt :: "image_env \<Rightarrow> string \<Rightarrow> string \<Rightarrow> (exn + bool) \<times> event list" where
  "primary_attempt env prompt filepath =
     (case backend env (enhanced_prompt prompt) of
        Inl e \<Rightarrow> (Inl e, [])
      | Inr candidates \<Rightarrow>
          (case candidates of
             [] \<Rightarrow> (Inr False, [])
           | parts # _ \<Rightarrow> if parts \<noteq> [] then use_parts env filepath parts else (Inr False, [])))"

text \<open>\<open>ImageGenerator.generate_diagram\<close>: the inner \<open>try\<close>, the fall-back, and the
  outer \<open>except\<close> around both.\<close>

definition generate_diagram ::
    "image_env \<Rightarrow> string \<Rightarrow> datetime \<Rightarrow> string \<Rightarrow> string \<Rightarrow> string \<Rightarrow> string option \<Rightarrow>
     (exn + pydict) \<times> event list" where
  "generate_diagram env output_dir now prompt topic diagram_type filename =
     (let filename = diagram_filename now topic diagram_type filename;
          filepath = path_join output_dir filename;
          body =
            (case primary_attempt env prompt filepath of
               (Inr True, evs) \<Rightarrow>
                 (Inr [(''success'', PBool True), (''filepath'', PStr filepath),
                       (''filename'', PStr filename),
                       (''relative_path'', PStr (''/static/generated/images/'' @ filename)),
                       (''topic'', PStr topic), (''diagram_type'', PStr diagram_type),
                       (''method'', PStr ''gemini'')], evs)
             | (Inr False, evs) \<Rightarrow>
                 (case create_placeholder_image env topic diagram_type filename filepath of
                    (r, evs') \<Rightarrow> (r, evs @ evs'))
             | (Inl gemini_error, evs) \<Rightarrow>
                 (case create_placeholder_image env topic diagram_type filename filepath of
                    (r, evs') \<Rightarrow>
                      (r, evs @ [Print (''Gemini image generation failed: ''
                                         @ exn_str gemini_error)] @ evs')))
      in case body of
           (Inl e, evs) \<Rightarrow>
             (Inr [(''success'', PBool False), (''error'', PStr (exn_str e)),
                   (''filepath'', PNone)], evs)
         | (Inr result, evs) \<Rightarrow> (Inr result, evs))"

section \<open>app.py\<close>

text \<open>Sequencing of steps that may raise.\<close>

definition ebind :: "exn + 'a \<Rightarrow> ('a \<Rightarrow> exn + 'b) \<Rightarrow> exn + 'b" where
  "ebind m f = (case m of Inl e \<Rightarrow> Inl e | Inr v \<Rightarrow> f v)"

fun type_name :: "pyval \<Rightarrow> string" where
  "type_name PNone = ''NoneType''"
| "type_name (PBool b) = ''bool''"
| "type_name (PInt i) = ''int''"
| "type_name (PFloat q) = ''float''"
| "type_name (PStr s) = ''str''"
| "type_name (PList xs) = ''list''"
| "type_name (PDict kvs) = ''dict''"

definition attribute_error :: "pyval \<Rightarrow> string \<Rightarrow> exn" where
  "attribute_error v name =
     Exn ''AttributeError''
       ([CHR 0x27] @ type_name v @ [CHR 0x27] @ '' object has no attribute ''
        @ [CHR 0x27] @ name @ [CHR 0x27])"

text \<open>\<open>data.get(key, default)\<close>, \<open>value.strip()\<close> and \<open>d[key]\<close> on values of any type.\<close>

fun py_get :: "pyval \<Rightarrow> string \<Rightarrow> pyval \<Rightarrow> exn + pyval" where
  "py_get (PDict kvs) key dflt = Inr (dict_get kvs key dflt)"
| "py_get v key dflt = Inl (attribute_error v ''get'')"

fun py_strip :: "pyval \<Rightarrow> exn + string" where
  "py_strip (PStr s) = Inr (strip s)"
| "py_strip v = Inl (attribute_error v ''strip'')"

definition py_item :: "pydict \<Rightarrow> string \<Rightarrow> exn + pyval" where
  "py_item d key =
     (case map_of d key of
        Some v \<Rightarrow> Inr v
      | None \<Rightarrow> Inl (Exn ''KeyError'' ([CHR 0x27] @ key @ [CHR 0x27])))"

text \<open>A value inside an f-string; only strings and \<open>None\<close> occur.\<close>

fun py_format :: "pyval \<Rightarrow> string" where
  "py_format (PStr s) = s"
| "py_format v = ''None''"

text \<open>\<open>jsonify({"error": msg}), status\<close>.\<close>

definition error_response :: "string \<Rightarrow> nat \<Rightarrow> pydict \<times> nat" where
  "error_response msg status = ([(''error'', PStr msg)], status)"

text \<open>
  The world of a request: what the four \<open>get_...\<close> functions give (the Gemini model
  behind the client, the output directories of the code processor and of the image
  generator, or the exception of their construction), the readings of the clock in
  order, the file system and the image world.
\<close>

record app_env =
  gemini :: "exn + model"
  code_dir :: "exn + string"
  image_dir :: "exn + string"
  clock :: "nat \<Rightarrow> datetime"
  fs_write :: "string \<Rightarrow> string \<Rightarrow> exn option"
  image_world :: image_env

text \<open>\<open>api_generate_text\<close>, from the log line on, and as a whole.\<close>

definition text_response :: "app_env \<Rightarrow> string \<Rightarrow> string \<Rightarrow> exn + pydict \<times> nat" where
  "text_response env topic depth =
     ebind (gemini env) (\<lambda>client.
     ebind (fst (generate_text_explanation client topic depth)) (\<lambda>result.
     Inr (result, 200)))"

definition api_generate_text :: "app_env \<Rightarrow> exn + pyval \<Rightarrow> pydict \<times> nat" where
  "api_generate_text env request_json =
     (case
        ebind request_json (\<lambda>data.
        if \<not> truthy data then Inr (error_response ''No data provided'' 400)
        else
          ebind (py_get data ''topic'' (PStr [])) (\<lambda>topic_value.
          ebind (py_strip topic_value) (\<lambda>topic.
          ebind (py_get data ''depth'' (PStr ''comprehensive'')) (\<lambda>depth.
          if topic = [] then Inr (error_response ''Topic is required'' 400)
          else
            let depth =
                  (if depth \<notin> set [PStr ''brief'', PStr ''intermediate'', PStr ''comprehensive'']
                   then PStr ''comprehensive'' else depth)
            in text_response env topic (str_of depth)))))
      of
        Inl e \<Rightarrow> error_response (exn_str e) 500
      | Inr response \<Rightarrow> response)"

text \<open>\<open>api_generate_code\<close>.\<close>

definition code_response :: "app_env \<Rightarrow> string \<Rightarrow> string \<Rightarrow> exn + pydict \<times> nat" where
  "code_response env topic complexity =
     ebind (gemini env) (\<lambda>client.
     ebind (fst (generate_code_example client topic complexity)) (\<lambda>result.
     if \<not> truthy (dict_get result ''success'' PNone)
     then Inr (error_response ''Failed to generate code'' 500)
     else
       ebind (code_dir env) (\<lambda>output_dir.
       ebind (py_item result ''code'') (\<lambda>code.
       let formatted = format_code_response (str_of code) topic complexity;
           file_info = fst (save_code_file output_dir (clock env 0) (clock env 1)
                              (fs_write env) (str_of code) topic None)
       in
       ebind (py_item formatted ''code'') (\<lambda>f_code.
       ebind (py_item formatted ''dependencies'') (\<lambda>f_dependencies.
       ebind (py_item formatted ''colab_setup'') (\<lambda>f_colab_setup.
       ebind (py_item formatted ''local_setup'') (\<lambda>f_local_setup.
       ebind (py_item formatted ''line_count'') (\<lambda>f_line_count.
       Inr ([(''success'', PBool True), (''topic'', PStr topic),
             (''complexity'', PStr complexity), (''code'', f_code),
             (''dependencies'', f_dependencies), (''colab_setup'', f_colab_setup),
             (''local_setup'', f_local_setup), (''line_count'', f_line_count),
             (''download_url'',
                if truthy (dict_get file_info ''success'' PNone)
                then dict_get file_info ''relative_path'' PNone else PNone)],
            200))))))))))"

definition api_generate_code :: "app_env \<Rightarrow> exn + pyval \<Rightarrow> pydict \<times> nat" where
  "api_generate_code env request_json =
     (case
        ebind request_json (\<lambda>data.
        if \<not> truthy data then Inr (error_response ''No data provided'' 400)
        else
          ebind (py_get data ''topic'' (PStr [])) (\<lambda>topic_value.
          ebind (py_strip topic_value) (\<lambda>topic.
          ebind (py_get data ''complexity'' (PStr ''intermediate'')) (\<lambda>complexity.
          if topic = [] then Inr (error_response ''Topic is required'' 400)
          else
            let complexity =
                  (if complexity \<notin> set [PStr ''basic'', PStr ''intermediate'', PStr ''advanced'']
                   then PStr ''intermediate'' else complexity)
            in code_response env topic (str_of complexity)))))
      of
        Inl e \<Rightarrow> error_response (exn_str e) 500
      | Inr response \<Rightarrow> response)"

text \<open>\<open>api_generate_image\<close>.\<close>

definition image_response :: "app_env \<Rightarrow> string \<Rightarrow> string \<Rightarrow> exn + pydict \<times> nat" where
  "image_response env topic diagram_type =
     ebind (gemini env) (\<lambda>client.
     ebind (fst (generate_image_prompt client topic diagram_type)) (\<lambda>prompt_result.
     if \<not> truthy (dict_get prompt_result ''success'' PNone)
     then Inr (error_response ''Failed to generate image prompt'' 500)
     else
       ebind (image_dir env) (\<lambda>output_dir.
       ebind (py_item prompt_result ''prompt'') (\<lambda>prompt.
       ebind (fst (generate_diagram (image_world env) output_dir (clock env 0)
                     (str_of prompt) topic diagram_type None)) (\<lambda>image_result.
       if \<not> truthy (dict_get image_result ''success'' PNone)
       then Inr (error_response
                   (''Image generation failed: ''
                    @ py_format (dict_get image_result ''error'' PNone)) 500)
       else
         ebind (py_item image_result ''relative_path'') (\<lambda>image_url.
         ebind (py_item image_result ''filename'') (\<lambda>image_filename.
         Inr ([(''success'', PBool True), (''topic'', PStr topic),
               (''diagram_type'', PStr diagram_type), (''image_url'', image_url),
               (''filename'', image_filename),
               (''method'', dict_get image_result ''method'' (PStr ''unknown'')),
               (''prompt'', prompt)], 200))))))))"

definition api_generate_image :: "app_env \<Rightarrow> exn + pyval \<Rightarrow> pydict \<times> nat" where
  "api_generate_image env request_json =
     (case
        ebind request_json (\<lambda>data.
        if \<not> truthy data then Inr (error_response ''No data provided'' 400)
        else
          ebind (py_get data ''topic'' (PStr [])) (\<lambda>topic_value.
          ebind (py_strip topic_value) (\<lambda>topic.
          ebind (py_get data ''diagram_type'' (PStr ''architecture'')) (\<lambda>diagram_type.
          if topic = [] then Inr (error_response ''Topic is required'' 400)
          else
            let diagram_type =
                  (if diagram_type \<notin> set [PStr ''architecture'', PStr ''flowchart'',
                                           PStr ''concept_map'', PStr ''visualization'']
                   then PStr ''architecture'' else diagram_type)
            in image_response env topic (str_of diagram_type)))))
      of
        Inl e \<Rightarrow> error_response (exn_str e) 500
      | Inr response \<Rightarrow> response)"

section \<open>The import scan in the words of the specification\<close>

text \<open>
  A line matches \<open>^keyword <name>\<close> with the name \<open>name\<close>: the keyword, then whitespace,
  then the identifier \<open>name\<close> in full (it is not followed by a further word character),
  then anything.
\<close>

definition matches_import :: "string \<Rightarrow> string \<Rightarrow> string \<Rightarrow> bool" where
  "matches_import keyword line name \<longleftrightarrow>
     (\<exists>ws rest. line = keyword @ ws @ name @ rest \<and>
        ws \<noteq> [] \<and> (\<forall>c\<in>set ws. isspace c) \<and>
        name \<noteq> [] \<and> (\<forall>c\<in>set name. isword c) \<and>
        (rest = [] \<or> \<not> isword (hd rest)))"

text \<open>
  The package an import stands for: its entry in the alias table when it has one;
  none when it is a standard-library module; itself otherwise.
\<close>

definition package_of :: "string \<Rightarrow> string \<Rightarrow> bool" where
  "package_of name p \<longleftrightarrow>
     (case map_of KNOWN_PACKAGES name of
        Some q \<Rightarrow> p = q
      | None \<Rightarrow> name \<notin> set stdlib_modules \<and> p = name)"

section \<open>A world for examples\<close>

text \<open>A model that answers every prompt with the same text, a clock, a file system that
  accepts every write, and an image model that fails.\<close>

definition example_env :: app_env where
  "example_env = \<lparr>gemini = Inr (\<lambda>prompt attempt. Inr ''Generative adversarial networks ...''),
          code_dir = Inr ''/srv/code'', image_dir = Inr ''/srv/images'',
          clock = (\<lambda>k. \<lparr>year = 2024, month = 5, day = 17, hour = 9, minute = 30, second = k\<rparr>),
          fs_write = (\<lambda>path content. None),
          image_world = \<lparr>backend = (\<lambda>prompt. Inl (Exn ''NotFound'' ''404 model not found'')),
                         b64decode = (\<lambda>d. Inr d), write_file = (\<lambda>path bytes. None),
                         save_placeholder = (\<lambda>topic diagram_type path. None)\<rparr>\<rparr>"

text \<open>An image model that answers with one candidate whose second part carries inline
  data.\<close>

definition inline_image_env :: image_env where
  "inline_image_env =
     \<lparr>backend = (\<lambda>prompt. Inr [[Part None, Part (Some ''aGVsbG8='')]]),
      b64decode = (\<lambda>d. Inr ''hello''),
      write_file = (\<lambda>path bytes. None),
      save_placeholder = (\<lambda>topic diagram_type path. None)\<rparr>"

section \<open>Setup instructions: properties\<close>

lemma join_single_space_Cons:
  "join '' '' (x # xs) = (if xs = [] then x else x @ '' '' @ join '' '' xs)"
  by (cases xs) simp_all

text \<open>
  Claim C6. For the empty package list the notebook setup is exactly the "ready to run"
  message and the local setup exactly the "no packages" message. For a non-empty list
  the notebook setup removes the seven pre-installed packages, answers "all
  pre-installed" when nothing remains and otherwise the install snippet for exactly the
  remaining packages, in their order; the local setup puts the whole list, joined by
  single spaces, into the three-step template.
\<close>

theorem setup_instructions:
  "generate_colab_setup [] = ''# No additional packages required - ready to run!'' \<and>
   generate_local_setup [] = ''No additional packages required.'' \<and>
   (packages \<noteq> [] \<longrightarrow>
     generate_colab_setup packages =
       (let rest = [p \<leftarrow> packages. p \<notin> {''numpy'', ''pandas'', ''matplotlib'', ''seaborn'',
                                         ''scikit-learn'', ''tensorflow'', ''keras''}]
        in if rest = [] then ''# All required packages are pre-installed in Google Colab!''
           else ''# Run this cell first to install required packages\<newline>!pip install ''
                @ join '' '' rest @ ''\<newline>\<newline># Then run the main code below'')) \<and>
   (packages \<noteq> [] \<longrightarrow>
     generate_local_setup packages =
       ''## Local Setup Instructions\<newline>\<newline>1. Create a virtual environment (recommended):\<newline>   ```bash\<newline>   python -m venv ml_env\<newline>   source ml_env/bin/activate  # On Windows: ml_env''
       @ [CHR 0x5C] @ ''Scripts'' @ [CHR 0x5C]
       @ ''activate\<newline>   ```\<newline>\<newline>2. Install required packages:\<newline>   ```bash\<newline>   pip install ''
       @ join '' '' packages
       @ ''\<newline>   ```\<newline>\<newline>3. Run the code:\<newline>   ```bash\<newline>   python your_script.py\<newline>   ```'')"
  by (simp add: generate_colab_setup_def generate_local_setup_def colab_preinstalled_def
      Let_def del: append.simps append_assoc)

theorem setup_instructions_witness:
  "generate_colab_setup [''numpy'', ''torch'', ''keras'', ''nltk''] =
     ''# Run this cell first to install required packages\<newline>!pip install torch nltk\<newline>\<newline># Then run the main code below''
   \<and> generate_colab_setup [''numpy'', ''keras''] =
     ''# All required packages are pre-installed in Google Colab!''
   \<and> generate_local_setup [''numpy'', ''torch''] =
     ''## Local Setup Instructions\<newline>\<newline>1. Create a virtual environment (recommended):\<newline>   ```bash\<newline>   python -m venv ml_env\<newline>   source ml_env/bin/activate  # On Windows: ml_env''
       @ [CHR 0x5C] @ ''Scripts'' @ [CHR 0x5C]
       @ ''activate\<newline>   ```\<newline>\<newline>2. Install required packages:\<newline>   ```bash\<newline>   pip install numpy torch\<newline>   ```\<newline>\<newline>3. Run the code:\<newline>   ```bash\<newline>   python your_script.py\<newline>   ```''"
  using setup_instructions [of "[''numpy'', ''torch'', ''keras'', ''nltk'']"]
    setup_instructions [of "[''numpy'', ''keras'']"]
    setup_instructions [of "[''numpy'', ''torch'']"]
  by simp

section \<open>Strings: basic facts\<close>

lemma startswith_prefix: "startswith s p \<longleftrightarrow> prefix p s"
  unfolding startswith_def
proof
  assume "take (length p) s = p"
  then have "p @ drop (length p) s = s" by (metis append_take_drop_id)
  then show "prefix p s" by (metis prefixI)
next
  assume "prefix p s"
  then show "take (length p) s = p" by (auto simp: prefix_def)
qed

lemma endswith_suffix: "endswith s p \<longleftrightarrow> suffix p s"
  unfolding endswith_def
proof
  assume a: "length p \<le> length s \<and> drop (length s - length p) s = p"
  then have "take (length s - length p) s @ p = s" by (metis append_take_drop_id)
  then show "suffix p s" by (metis suffixI)
next
  assume "suffix p s"
  then show "length p \<le> length s \<and> drop (length s - length p) s = p"
    by (auto simp: suffix_def)
qed

section \<open>The retry loop\<close>

lemma retry_loop_skip:
  "a + k \<le> n \<Longrightarrow> (\<forall>i<k. \<exists>e. func (a + i) = Inl e \<and> is_rate_limit e) \<Longrightarrow>
   retry_loop func n a slept =
   retry_loop func n (a + k) (slept @ map (\<lambda>i. 2 ^ i * 2) [a..<a + k])"
proof (induction k arbitrary: a slept)
  case 0
  then show ?case by simp
next
  case (Suc k)
  from Suc.prems(2) obtain e where e: "func a = Inl e" "is_rate_limit e"
    by (metis add.right_neutral zero_less_Suc)
  have lt: "a < n" using Suc.prems(1) by simp
  have step: "retry_loop func n a slept = retry_loop func n (Suc a) (slept @ [2 ^ a * 2])"
    using e lt by (subst retry_loop.simps) (simp add: Let_def)
  have rest: "\<forall>i<k. \<exists>e. func (Suc a + i) = Inl e \<and> is_rate_limit e"
    using Suc.prems(2) by (metis Suc_less_eq add_Suc_shift)
  have "retry_loop func n (Suc a) (slept @ [2 ^ a * 2]) =
        retry_loop func n (Suc a + k)
          ((slept @ [2 ^ a * 2]) @ map (\<lambda>i. 2 ^ i * 2) [Suc a..<Suc a + k])"
    using Suc.IH [of "Suc a" "slept @ [2 ^ a * 2]"] Suc.prems(1) rest by simp
  also have "(slept @ [2 ^ a * 2]) @ map (\<lambda>i. 2 ^ i * 2) [Suc a..<Suc a + k] =
        slept @ map (\<lambda>i. 2 ^ i * 2) [a..<a + Suc k]"
    by (simp add: upt_conv_Cons)
  finally show ?case using step by simp
qed

text \<open>
  Claim C4, as the code has it. The bound counts attempts: let the first \<open>k\<close> attempts
  fail with a rate-limit message and, if \<open>k\<close> is below the bound, let attempt \<open>k\<close> be a
  success or a failure of another kind. Then \<open>func\<close> is called at most as many times
  as the bound says, the loop has slept \<open>2 ^ attempt * 2\<close> seconds after each rate-limit
  failure (also after the last attempt, where no call follows), and its outcome is that
  of attempt \<open>k\<close> (the value returned or the exception raised again, without a further
  sleep), or the exception "Max retries exceeded for API call" when all attempts up to
  the bound were rate-limit failures. Every caller uses the bound 3: three attempts,
  of which at most two are retries.
\<close>

theorem retry_with_backoff_spec:
  "k \<le> n \<Longrightarrow> (\<forall>i<k. \<exists>e. func i = Inl e \<and> is_rate_limit e) \<Longrightarrow>
   (k < n \<Longrightarrow> \<forall>e. func k = Inl e \<longrightarrow> \<not> is_rate_limit e) \<Longrightarrow>
   retry_with_backoff func n =
     (if k < n then func k else Inl max_retries_exceeded, map (\<lambda>i. 2 ^ i * 2) [0..<k])"
proof -
  assume k: "k \<le> n" and fails: "\<forall>i<k. \<exists>e. func i = Inl e \<and> is_rate_limit e"
    and last: "k < n \<Longrightarrow> \<forall>e. func k = Inl e \<longrightarrow> \<not> is_rate_limit e"
  have skip: "retry_with_backoff func n = retry_loop func n k (map (\<lambda>i. 2 ^ i * 2) [0..<k])"
    using retry_loop_skip [of 0 k n func "[]"] k fails by (simp add: retry_with_backoff_def)
  show ?thesis
  proof (cases "k < n")
    case True
    with last have "\<forall>e. func k = Inl e \<longrightarrow> \<not> is_rate_limit e" by simp
    then show ?thesis using True skip
      by (subst skip, subst retry_loop.simps) (auto split: sum.splits)
  next
    case False
    then show ?thesis using skip by (subst skip, subst retry_loop.simps) simp
  qed
qed

lemma rate_limit_examples:
  "is_rate_limit (Exn ''ResourceExhausted'' ''429 Too Many Requests'')"
  "is_rate_limit (Exn ''ResourceExhausted'' ''Quota exceeded'')"
  "\<not> is_rate_limit (Exn ''ValueError'' ''bad request'')"
  by (simp_all add: is_rate_limit_def lower_def lower_chr_def startswith_def
      char_of_def bit_iff_odd)

theorem retry_with_backoff_spec_witness:
  "retry_with_backoff
     (\<lambda>i. if i < 2 then Inl (Exn ''ResourceExhausted'' ''429 Too Many Requests'')
          else Inr ''text'') 3 = (Inr ''text'', [2, 4])
   \<and> retry_with_backoff
     (\<lambda>i. Inl (Exn ''ResourceExhausted'' ''Quota exceeded'') :: exn + string) 3
       = (Inl (Exn ''Exception'' ''Max retries exceeded for API call''), [2, 4, 8])
   \<and> retry_with_backoff
     (\<lambda>i. if i = 0 then Inl (Exn ''ResourceExhausted'' ''Quota exceeded'')
          else Inl (Exn ''ValueError'' ''bad request'') :: exn + string) 3
       = (Inl (Exn ''ValueError'' ''bad request''), [2])"
proof -
  have a: "retry_with_backoff
     (\<lambda>i. if i < 2 then Inl (Exn ''ResourceExhausted'' ''429 Too Many Requests'')
          else Inr ''text'') 3 = (Inr ''text'', [2, 4])"
    using retry_with_backoff_spec [of 2 3
        "\<lambda>i. if i < 2 then Inl (Exn ''ResourceExhausted'' ''429 Too Many Requests'')
             else Inr ''text''"]
    by (simp add: rate_limit_examples upt_rec numeral_2_eq_2 del: upt.simps)
  have b: "retry_with_backoff
     (\<lambda>i. Inl (Exn ''ResourceExhausted'' ''Quota exceeded'') :: exn + string) 3
       = (Inl (Exn ''Exception'' ''Max retries exceeded for API call''), [2, 4, 8])"
    using retry_with_backoff_spec [of 3 3
        "\<lambda>i. Inl (Exn ''ResourceExhausted'' ''Quota exceeded'') :: exn + string"]
    by (simp add: rate_limit_examples max_retries_exceeded_def upt_rec numeral_3_eq_3
        del: upt.simps)
  have c: "retry_with_backoff
     (\<lambda>i. if i = 0 then Inl (Exn ''ResourceExhausted'' ''Quota exceeded'')
          else Inl (Exn ''ValueError'' ''bad request'') :: exn + string) 3
       = (Inl (Exn ''ValueError'' ''bad request''), [2])"
    using retry_with_backoff_spec [of 1 3
        "\<lambda>i. if i = 0 then Inl (Exn ''ResourceExhausted'' ''Quota exceeded'')
             else Inl (Exn ''ValueError'' ''bad request'') :: exn + string"]
    by (simp add: rate_limit_examples)
  from a b c show ?thesis by blast
qed

text \<open>Three rate-limit failures exhaust the bound 3: the third wait, of 8 seconds, is
  followed by no call, and a function that would succeed on a third retry is not called
  again (with the bound 4 it is).\<close>

theorem retry_with_backoff_spec_counterexample:
  "retry_with_backoff
     (\<lambda>i. if i < 3 then Inl (Exn ''ResourceExhausted'' ''429 Too Many Requests'')
          else Inr ''text'') 3
     = (Inl (Exn ''Exception'' ''Max retries exceeded for API call''), [2, 4, 8])
   \<and> retry_with_backoff
     (\<lambda>i. if i < 3 then Inl (Exn ''ResourceExhausted'' ''429 Too Many Requests'')
          else Inr ''text'') 4
     = (Inr ''text'', [2, 4, 8])"
proof -
  define f :: "nat \<Rightarrow> exn + string" where
    "f = (\<lambda>i. if i < 3 then Inl (Exn ''ResourceExhausted'' ''429 Too Many Requests'')
          else Inr ''text'')"
  have fails: "\<forall>i<3. \<exists>e. f (0 + i) = Inl e \<and> is_rate_limit e"
    unfolding f_def by (simp add: rate_limit_examples)
  have w: "map (\<lambda>i. 2 ^ i * 2) [0..<0 + 3] = [2, 4, 8 :: nat]"
    by (simp add: upt_rec numeral_3_eq_3 del: upt.simps)
  have a: "retry_loop f 3 0 [] = retry_loop f 3 3 [2, 4, 8]"
    using retry_loop_skip [of 0 3 3 f "[]"] fails unfolding w by simp
  have b: "retry_loop f 4 0 [] = retry_loop f 4 3 [2, 4, 8]"
    using retry_loop_skip [of 0 3 4 f "[]"] fails unfolding w by simp
  have a': "retry_loop f 3 3 [2, 4, 8] = (Inl max_retries_exceeded, [2, 4, 8])"
    by (subst retry_loop.simps) simp
  have b': "retry_loop f 4 3 [2, 4, 8] = (Inr ''text'', [2, 4, 8])"
    by (subst retry_loop.simps) (simp add: f_def)
  show ?thesis
    unfolding f_def [symmetric] retry_with_backoff_def a b a' b'
    by (simp add: max_retries_exceeded_def)
qed

section \<open>Code fences\<close>

lemma clean_code_middle:
  fixes raw :: string
  defines "t \<equiv> strip raw"
  defines "pre \<equiv> (if prefix ''```python'' t then ''```python''
                   else if prefix ''```'' t then ''```'' else [])"
  defines "r \<equiv> drop (length pre) t"
  defines "suf \<equiv> (if suffix ''```'' r then ''```'' else [])"
  defines "mid \<equiv> take (length r - length suf) r"
  shows "t = pre @ mid @ suf \<and> clean_code raw = strip mid"
proof -
  have r_code: "r = (if startswith t ''```python'' then drop 9 t
                  else if startswith t ''```'' then drop 3 t else t)"
    by (simp add: r_def pre_def startswith_prefix eval_nat_numeral)
  have mid_code: "mid = (if endswith r ''```'' then take (length r - 3) r else r)"
    by (simp add: mid_def suf_def endswith_suffix eval_nat_numeral)
  have t: "t = pre @ r"
    unfolding r_def by (auto simp: pre_def prefix_def)
  have r: "r = mid @ suf"
    unfolding mid_def by (auto simp: suf_def suffix_def)
  have c: "clean_code raw = strip mid"
    unfolding clean_code_def Let_def t_def [symmetric] r_code [symmetric] mid_code [symmetric] ..
  from t r c show ?thesis by simp
qed

text \<open>
  Claim C8. When the model call of \<open>generate_code_example\<close> returns a text, the code of
  the result is a function of that text alone: with \<open>t\<close> the text without surrounding
  whitespace, \<open>pre\<close> the leading "```python" of \<open>t\<close> if \<open>t\<close> starts with it, otherwise
  the leading "```" if \<open>t\<close> starts with that, otherwise nothing, and \<open>suf\<close> the trailing
  "```" of what follows \<open>pre\<close> if it ends so, \<open>t\<close> is \<open>pre\<close>, a middle part and
  \<open>suf\<close>, and the code is the middle part without surrounding whitespace. Nothing
  inside the middle part is touched.
\<close>

theorem generate_code_example_fences:
  "retry_with_backoff (m (code_prompt topic complexity)) 3 = (Inr raw, slept) \<Longrightarrow>
   (let t = strip raw;
        pre = (if prefix ''```python'' t then ''```python''
               else if prefix ''```'' t then ''```'' else []);
        r = drop (length pre) t;
        suf = (if suffix ''```'' r then ''```'' else []);
        mid = take (length r - length suf) r
    in t = pre @ mid @ suf \<and>
       generate_code_example m topic complexity =
         (Inr [(''topic'', PStr topic), (''complexity'', PStr complexity),
               (''code'', PStr (strip mid)), (''success'', PBool True)], slept))"
  using clean_code_middle [of raw]
  by (simp add: generate_code_example_def Let_def)

theorem generate_code_example_fences_witness:
  "generate_code_example (\<lambda>prompt attempt. Inr ''  ```python\<newline>x = 1\<newline>```\<newline>'') ''t'' ''basic'' =
     (Inr [(''topic'', PStr ''t''), (''complexity'', PStr ''basic''),
           (''code'', PStr ''x = 1''), (''success'', PBool True)], [])"
proof -
  have h: "retry_with_backoff ((\<lambda>prompt attempt. Inr ''  ```python\<newline>x = 1\<newline>```\<newline>'') (code_prompt ''t'' ''basic'')) 3
      = (Inr ''  ```python\<newline>x = 1\<newline>```\<newline>'' :: exn + string, [])"
    by (simp add: retry_with_backoff_def)
  show ?thesis
    using generate_code_example_fences [OF h]
    by (simp add: Let_def strip_def lstrip_def rstrip_def isspace_def suffix_to_prefix)
qed

section \<open>Splitting at whitespace\<close>

lemma split_ws_from_word:
  "\<forall>c\<in>set w. \<not> isspace c \<Longrightarrow> split_ws_from cur (w @ rest) = split_ws_from (cur @ w) rest"
  by (induction w arbitrary: cur) auto

lemma split_ws_from_spaces:
  "\<forall>c\<in>set sp. isspace c \<Longrightarrow> sp \<noteq> [] \<Longrightarrow>
   split_ws_from cur (sp @ rest) = (if cur = [] then [] else [cur]) @ split_ws_from [] rest"
proof (induction sp arbitrary: cur)
  case Nil
  then show ?case by simp
next
  case (Cons c sp)
  show ?case
  proof (cases "sp = []")
    case True
    with Cons.prems show ?thesis by simp
  next
    case False
    with Cons.prems Cons.IH [of "[]"] show ?thesis by simp
  qed
qed

lemma split_ws_laws:
  "split_ws [] = []"
  "w \<noteq> [] \<Longrightarrow> \<forall>c\<in>set w. \<not> isspace c \<Longrightarrow> split_ws w = [w]"
  "sp \<noteq> [] \<Longrightarrow> \<forall>c\<in>set sp. isspace c \<Longrightarrow> split_ws (sp @ rest) = split_ws rest"
  "w \<noteq> [] \<Longrightarrow> \<forall>c\<in>set w. \<not> isspace c \<Longrightarrow> sp \<noteq> [] \<Longrightarrow> \<forall>c\<in>set sp. isspace c \<Longrightarrow>
     split_ws (w @ sp @ rest) = w # split_ws rest"
proof -
  show "split_ws [] = []" by (simp add: split_ws_def)
  show "split_ws w = [w]" if "w \<noteq> []" "\<forall>c\<in>set w. \<not> isspace c"
    using that split_ws_from_word [of w "[]" "[]"] by (simp add: split_ws_def)
  show "split_ws (sp @ rest) = split_ws rest" if "sp \<noteq> []" "\<forall>c\<in>set sp. isspace c"
    using that split_ws_from_spaces [of sp "[]" rest] by (simp add: split_ws_def)
  show "split_ws (w @ sp @ rest) = w # split_ws rest"
    if "w \<noteq> []" "\<forall>c\<in>set w. \<not> isspace c" "sp \<noteq> []" "\<forall>c\<in>set sp. isspace c"
    using that split_ws_from_word [of w "[]" "sp @ rest"] split_ws_from_spaces [of sp w rest]
    by (simp add: split_ws_def)
qed

lemma split_ws_join:
  "\<forall>w\<in>set ws. w \<noteq> [] \<and> (\<forall>c\<in>set w. \<not> isspace c) \<Longrightarrow> split_ws (join '' '' ws) = ws"
proof (induction ws)
  case Nil
  then show ?case by (simp add: split_ws_laws)
next
  case (Cons x xs)
  show ?case
  proof (cases "xs = []")
    case True
    with Cons.prems show ?thesis by (simp add: split_ws_laws)
  next
    case False
    have "split_ws (x @ '' '' @ join '' '' xs) = x # split_ws (join '' '' xs)"
      using Cons.prems by (intro split_ws_laws(4)) (simp_all add: isspace_def)
    with False Cons show ?thesis by (simp add: join_single_space_Cons del: join.simps)
  qed
qed

section \<open>Word count and duration\<close>

lemma tenths_div:
  fixes q r :: int
  assumes "0 \<le> r" "r < 15"
  shows "(2 * (15 * q + r) + 15) div 30 = (if r \<le> 7 then q else q + 1)"
proof -
  have "(2 * (15 * q + r) + 15) div 30 = ((2 * r + 15) + q * 30) div 30"
    by (simp add: algebra_simps)
  also have "\<dots> = q + (2 * r + 15) div 30"
    by (rule div_mult_self1) simp
  finally have e: "(2 * (15 * q + r) + 15) div 30 = q + (2 * r + 15) div 30" .
  show ?thesis
  proof (cases "r \<le> 7")
    case True
    then have "(2 * r + 15) div 30 = 0" using assms by (intro div_pos_pos_trivial) simp_all
    with e True show ?thesis by simp
  next
    case False
    have "(2 * r + 15) div 30 = ((2 * r - 15) + 1 * 30) div 30" by simp
    also have "\<dots> = 1 + (2 * r - 15) div 30" by (rule div_mult_self1) simp
    also have "(2 * r - 15) div 30 = 0" using assms False by (intro div_pos_pos_trivial) simp_all
    finally show ?thesis using e False by simp
  qed
qed

lemma round1_div_150:
  "round1 (of_nat n / 150) = of_int ((2 * int n + 15) div 30) / 10"
proof -
  define q where "q = int n div 15"
  define r where "r = int n mod 15"
  have n: "int n = 15 * q + r" and r: "0 \<le> r" "r < 15"
    by (simp_all add: q_def r_def)
  have s: "(of_nat n / 150 :: rat) * 10 = of_int (int n) / of_int 15" by simp
  have f: "\<lfloor>(of_nat n / 150 :: rat) * 10\<rfloor> = q"
    unfolding s q_def by (rule floor_divide_of_int_eq)
  have d: "(of_nat n / 150 :: rat) * 10 - of_int q = of_int r / 15"
    unfolding s n by (simp add: field_simps)
  have lt: "(of_int r / 15 :: rat) < 1 / 2 \<longleftrightarrow> r \<le> 7"
  proof -
    have "(of_int r / 15 :: rat) < 1 / 2 \<longleftrightarrow> (of_int (2 * r) :: rat) < of_int 15"
      by (simp add: field_simps)
    also have "\<dots> \<longleftrightarrow> 2 * r < 15" by (rule of_int_less_iff)
    finally show ?thesis by auto
  qed
  have gt: "(1 / 2 :: rat) < of_int r / 15 \<longleftrightarrow> 8 \<le> r"
  proof -
    have "(1 / 2 :: rat) < of_int r / 15 \<longleftrightarrow> (of_int 15 :: rat) < of_int (2 * r)"
      by (simp add: field_simps)
    also have "\<dots> \<longleftrightarrow> 15 < 2 * r" by (rule of_int_less_iff)
    finally show ?thesis by auto
  qed
  have k: "(2 * int n + 15) div 30 = (if r \<le> 7 then q else q + 1)"
    unfolding n using r by (rule tenths_div)
  have "round1 (of_nat n / 150) = of_int (if r \<le> 7 then q else q + 1) / 10"
  proof (cases "r \<le> 7")
    case True
    then show ?thesis unfolding round1_def Let_def f d lt by simp
  next
    case False
    then have "8 \<le> r" by simp
    with False show ?thesis unfolding round1_def Let_def f d lt gt by simp
  qed
  then show ?thesis unfolding k .
qed
lemma tenths_near:
  "\<bar>(of_nat n / 150 :: rat) - of_int ((2 * int n + 15) div 30) / 10\<bar> < 1 / 20"
proof -
  define k where "k = (2 * int n + 15) div 30"
  have lo: "30 * k \<le> 2 * int n + 15" unfolding k_def by simp
  have hi: "2 * int n + 15 < 30 * k + 30"
    unfolding k_def using pos_mod_bound [of 30 "2 * int n + 15"]
    by (simp add: minus_mod_eq_mult_div [symmetric] algebra_simps)
  have ne: "2 * int n + 15 \<noteq> 30 * k"
  proof
    assume "2 * int n + 15 = 30 * k"
    then have "odd (30 * k)" by (metis even_add even_mult_iff even_numeral odd_numeral)
    then show False by simp
  qed
  from lo ne have lo': "30 * k + 1 \<le> 2 * int n + 15" by simp
  have a: "(of_int (30 * k + 1) :: rat) \<le> of_int (2 * int n + 15)"
    using lo' by (rule iffD2 [OF of_int_le_iff])
  have b: "(of_int (2 * int n + 15) :: rat) < of_int (30 * k + 30)"
    using hi by (rule iffD2 [OF of_int_less_iff])
  have "(of_nat n / 150 :: rat) - of_int k / 10 = (of_int (2 * int n + 15) - of_int (30 * k) - 15) / 300"
    by (simp add: field_simps)
  moreover have "\<bar>(of_int (2 * int n + 15) :: rat) - of_int (30 * k) - 15\<bar> < 15"
    using a b by (simp add: abs_less_iff)
  ultimately have "\<bar>(of_nat n / 150 :: rat) - of_int k / 10\<bar> < 15 / 300"
    by (simp only: abs_divide)
  then show ?thesis unfolding k_def [symmetric] by simp
qed

text \<open>
  Claim C9. When \<open>text_to_speech\<close> succeeds, \<open>word_count\<close> is the number of pieces
  \<open>text.split()\<close> gives (for words joined by single spaces, the number of words), and
  the estimated duration is \<open>word_count / 150\<close> rounded to one decimal: a whole number
  of tenths, \<open>(2 * word_count + 15) div 30\<close> of them, less than one twentieth away from
  \<open>word_count / 150\<close>. The duration is computed on exact numbers: no \<open>word_count / 150\<close>
  lies half-way between two tenths, so the float of the code is the double nearest to
  this value.
\<close>

theorem text_to_speech_counts:
  "map_of (text_to_speech output_dir now speak text filename language slow) ''success''
     = Some (PBool True) \<Longrightarrow>
   (let result = text_to_speech output_dir now speak text filename language slow;
        n = length (split_ws text);
        tenths = (2 * int n + 15) div 30
    in map_of result ''word_count'' = Some (PInt (int n)) \<and>
       map_of result ''estimated_duration_minutes'' = Some (PFloat (round1 (of_nat n / 150))) \<and>
       round1 (of_nat n / 150) = of_int tenths / 10 \<and>
       \<bar>(of_nat n / 150 :: rat) - of_int tenths / 10\<bar> < 1 / 20 \<and>
       (\<forall>ws. (\<forall>w\<in>set ws. w \<noteq> [] \<and> (\<forall>c\<in>set w. \<not> isspace c)) \<and> text = join '' '' ws
          \<longrightarrow> n = length ws))"
proof -
  assume ok: "map_of (text_to_speech output_dir now speak text filename language slow) ''success''
     = Some (PBool True)"
  define result where "result = text_to_speech output_dir now speak text filename language slow"
  define n where "n = length (split_ws text)"
  have fields: "map_of result ''word_count'' = Some (PInt (int n)) \<and>
       map_of result ''estimated_duration_minutes'' = Some (PFloat (round1 (of_nat n / 150)))"
    using ok unfolding result_def n_def text_to_speech_def Let_def
    by (cases "speak text language slow (path_join output_dir (audio_filename now filename))")
      simp_all
  have toks: "\<forall>ws. (\<forall>w\<in>set ws. w \<noteq> [] \<and> (\<forall>c\<in>set w. \<not> isspace c)) \<and> text = join '' '' ws
          \<longrightarrow> n = length ws"
    unfolding n_def using split_ws_join by auto
  show ?thesis
    unfolding Let_def result_def [symmetric] n_def [symmetric]
    using fields toks round1_div_150 [of n] tenths_near [of n] by simp
qed

theorem text_to_speech_counts_witness:
  "map_of (text_to_speech ''/srv/audio''
       \<lparr>year = 2024, month = 5, day = 17, hour = 9, minute = 30, second = 0\<rparr>
       (\<lambda>text language slow filepath. None)
       (join '' '' (replicate 300 ''word'')) None ''en'' False) ''word_count'' = Some (PInt 300)
   \<and> map_of (text_to_speech ''/srv/audio''
       \<lparr>year = 2024, month = 5, day = 17, hour = 9, minute = 30, second = 0\<rparr>
       (\<lambda>text language slow filepath. None)
       (join '' '' (replicate 300 ''word'')) None ''en'' False) ''estimated_duration_minutes''
     = Some (PFloat 2)"
proof -
  define script where "script = join '' '' (replicate 300 ''word'')"
  define result where "result = text_to_speech ''/srv/audio''
       \<lparr>year = 2024, month = 5, day = 17, hour = 9, minute = 30, second = 0\<rparr>
       (\<lambda>text language slow filepath. None) script None ''en'' False"
  have ok: "map_of result ''success'' = Some (PBool True)"
    unfolding result_def text_to_speech_def Let_def by simp
  have words: "\<forall>w\<in>set (replicate 300 ''word''). w \<noteq> [] \<and> (\<forall>c\<in>set w. \<not> isspace c)"
    by (simp add: isspace_def)
  note t = text_to_speech_counts [OF ok [unfolded result_def], folded result_def, unfolded Let_def]
  from t words have n: "length (split_ws script) = 300"
    unfolding script_def by (metis length_replicate)
  from t have "map_of result ''word_count'' = Some (PInt 300)"
    unfolding n by simp
  moreover from t have "map_of result ''estimated_duration_minutes'' = Some (PFloat 2)"
    unfolding n by simp
  ultimately show ?thesis unfolding result_def script_def by simp
qed

section \<open>Unrecognized depth, complexity and diagram type\<close>

lemma api_generate_text_default:
  assumes a: "kvs \<noteq> []" "map_of kvs ''topic'' = Some (PStr t)" "strip t \<noteq> []"
   and b: "map_of kvs ''depth'' = Some v"
      "v \<notin> {PStr ''brief'', PStr ''intermediate'', PStr ''comprehensive''}"
  shows "api_generate_text env (Inr (PDict kvs)) =
      (case text_response env (strip t) ''comprehensive'' of
         Inl e \<Rightarrow> error_response (exn_str e) 500 | Inr response \<Rightarrow> response)"
proof -
  have g1: "py_get (PDict kvs) ''topic'' (PStr []) = Inr (PStr t)"
    using a(2) by (simp add: dict_get_def)
  have g2: "py_get (PDict kvs) ''depth'' (PStr ''comprehensive'') = Inr v"
    using b(1) by (simp add: dict_get_def)
  have tr: "truthy (PDict kvs)" using a(1) by simp
  have v: "v \<notin> set [PStr ''brief'', PStr ''intermediate'', PStr ''comprehensive'']"
    using b(2) by simp
  show ?thesis
    unfolding api_generate_text_def ebind_def
    by (simp only: sum.case tr g1 g2 py_strip.simps a(3) v if_True if_False not_True_eq_False
        not_False_eq_True Let_def str_of.simps)
qed

lemma api_generate_code_default:
  assumes a: "kvs \<noteq> []" "map_of kvs ''topic'' = Some (PStr t)" "strip t \<noteq> []"
   and b: "map_of kvs ''complexity'' = Some v"
      "v \<notin> {PStr ''basic'', PStr ''intermediate'', PStr ''advanced''}"
  shows "api_generate_code env (Inr (PDict kvs)) =
      (case code_response env (strip t) ''intermediate'' of
         Inl e \<Rightarrow> error_response (exn_str e) 500 | Inr response \<Rightarrow> response)"
proof -
  have g1: "py_get (PDict kvs) ''topic'' (PStr []) = Inr (PStr t)"
    using a(2) by (simp add: dict_get_def)
  have g2: "py_get (PDict kvs) ''complexity'' (PStr ''intermediate'') = Inr v"
    using b(1) by (simp add: dict_get_def)
  have tr: "truthy (PDict kvs)" using a(1) by simp
  have v: "v \<notin> set [PStr ''basic'', PStr ''intermediate'', PStr ''advanced'']"
    using b(2) by simp
  show ?thesis
    unfolding api_generate_code_def ebind_def
    by (simp only: sum.case tr g1 g2 py_strip.simps a(3) v if_True if_False not_True_eq_False
        not_False_eq_True Let_def str_of.simps)
qed

lemma api_generate_image_default:
  assumes a: "kvs \<noteq> []" "map_of kvs ''topic'' = Some (PStr t)" "strip t \<noteq> []"
   and b: "map_of kvs ''diagram_type'' = Some v"
      "v \<notin> {PStr ''architecture'', PStr ''flowchart'', PStr ''concept_map'',
             PStr ''visualization''}"
  shows "api_generate_image env (Inr (PDict kvs)) =
      (case image_response env (strip t) ''architecture'' of
         Inl e \<Rightarrow> error_response (exn_str e) 500 | Inr response \<Rightarrow> response)"
proof -
  have g1: "py_get (PDict kvs) ''topic'' (PStr []) = Inr (PStr t)"
    using a(2) by (simp add: dict_get_def)
  have g2: "py_get (PDict kvs) ''diagram_type'' (PStr ''architecture'') = Inr v"
    using b(1) by (simp add: dict_get_def)
  have tr: "truthy (PDict kvs)" using a(1) by simp
  have v: "v \<notin> set [PStr ''architecture'', PStr ''flowchart'', PStr ''concept_map'',
                     PStr ''visualization'']"
    using b(2) by simp
  show ?thesis
    unfolding api_generate_image_def ebind_def
    by (simp only: sum.case tr g1 g2 py_strip.simps a(3) v if_True if_False not_True_eq_False
        not_False_eq_True Let_def str_of.simps)
qed

text \<open>
  Claim C7. Take a request whose body is a JSON object with a string \<open>topic\<close> that is
  not empty after trimming. If its \<open>depth\<close> is any value other than the three recognized
  strings, \<open>api_generate_text\<close> goes on exactly as for depth "comprehensive"; if its
  \<open>complexity\<close> is none of the three recognized strings, \<open>api_generate_code\<close> goes on
  as for "intermediate"; if its \<open>diagram_type\<close> is none of the four recognized strings,
  \<open>api_generate_image\<close> goes on as for "architecture". In each case the answer is the
  one of the rest of the handler, not an error of the validation.
\<close>

theorem enum_defaults:
  "kvs \<noteq> [] \<Longrightarrow> map_of kvs ''topic'' = Some (PStr t) \<Longrightarrow> strip t \<noteq> [] \<Longrightarrow>
   (map_of kvs ''depth'' = Some v \<and>
      v \<notin> {PStr ''brief'', PStr ''intermediate'', PStr ''comprehensive''} \<longrightarrow>
    api_generate_text env (Inr (PDict kvs)) =
      (case text_response env (strip t) ''comprehensive'' of
         Inl e \<Rightarrow> error_response (exn_str e) 500 | Inr response \<Rightarrow> response)) \<and>
   (map_of kvs ''complexity'' = Some v \<and>
      v \<notin> {PStr ''basic'', PStr ''intermediate'', PStr ''advanced''} \<longrightarrow>
    api_generate_code env (Inr (PDict kvs)) =
      (case code_response env (strip t) ''intermediate'' of
         Inl e \<Rightarrow> error_response (exn_str e) 500 | Inr response \<Rightarrow> response)) \<and>
   (map_of kvs ''diagram_type'' = Some v \<and>
      v \<notin> {PStr ''architecture'', PStr ''flowchart'', PStr ''concept_map'',
             PStr ''visualization''} \<longrightarrow>
    api_generate_image env (Inr (PDict kvs)) =
      (case image_response env (strip t) ''architecture'' of
         Inl e \<Rightarrow> error_response (exn_str e) 500 | Inr response \<Rightarrow> response))"
proof -
  assume a: "kvs \<noteq> []" "map_of kvs ''topic'' = Some (PStr t)" "strip t \<noteq> []"
  show ?thesis
  proof (intro conjI impI)
    assume h: "map_of kvs ''depth'' = Some v \<and>
      v \<notin> {PStr ''brief'', PStr ''intermediate'', PStr ''comprehensive''}"
    from api_generate_text_default [OF a conjunct1 [OF h] conjunct2 [OF h]]
    show "api_generate_text env (Inr (PDict kvs)) =
      (case text_response env (strip t) ''comprehensive'' of
         Inl e \<Rightarrow> error_response (exn_str e) 500 | Inr response \<Rightarrow> response)" .
  next
    assume h: "map_of kvs ''complexity'' = Some v \<and>
      v \<notin> {PStr ''basic'', PStr ''intermediate'', PStr ''advanced''}"
    from api_generate_code_default [OF a conjunct1 [OF h] conjunct2 [OF h]]
    show "api_generate_code env (Inr (PDict kvs)) =
      (case code_response env (strip t) ''intermediate'' of
         Inl e \<Rightarrow> error_response (exn_str e) 500 | Inr response \<Rightarrow> response)" .
  next
    assume h: "map_of kvs ''diagram_type'' = Some v \<and>
      v \<notin> {PStr ''architecture'', PStr ''flowchart'', PStr ''concept_map'',
             PStr ''visualization''}"
    from api_generate_image_default [OF a conjunct1 [OF h] conjunct2 [OF h]]
    show "api_generate_image env (Inr (PDict kvs)) =
      (case image_response env (strip t) ''architecture'' of
         Inl e \<Rightarrow> error_response (exn_str e) 500 | Inr response \<Rightarrow> response)" .
  qed
qed

section \<open>The example world at work\<close>

lemma example_strip_topic: "strip '' GANs '' = ''GANs''"
  by (simp add: strip_def lstrip_def rstrip_def isspace_def)

lemma example_stamp: "strftime_compact (clock example_env 0) = ''20240517_093000''"
  by (simp add: example_env_def strftime_compact_def pad2_def pad4_def digit_def char_of_def bit_iff_odd)

lemma example_header_stamp: "strftime_iso (clock example_env 1) = ''2024-05-17 09:30:01''"
  by (simp add: example_env_def strftime_iso_def pad2_def pad4_def digit_def char_of_def bit_iff_odd)

lemma example_safe_topic: "safe_topic ''GANs'' = ''GANs''"
  by (simp add: safe_topic_def isalnum_def)

lemma example_image_response: "image_response example_env ''GANs'' ''architecture'' =
  Inr ([(''success'', PBool True), (''topic'', PStr ''GANs''),
        (''diagram_type'', PStr ''architecture''),
        (''image_url'', PStr ''/static/generated/images/GANs_architecture_20240517_093000.png''),
        (''filename'', PStr ''GANs_architecture_20240517_093000.png''),
        (''method'', PStr ''placeholder''),
        (''prompt'', PStr ''Generative adversarial networks ...'')], 200)"
proof -
  have p: "fst (generate_image_prompt (\<lambda>prompt attempt. Inr ''Generative adversarial networks ...'') ''GANs'' ''architecture'')
     = Inr [(''topic'', PStr ''GANs''), (''diagram_type'', PStr ''architecture''),
                (''prompt'', PStr ''Generative adversarial networks ...''), (''success'', PBool True)]"
    by (simp add: generate_image_prompt_def retry_with_backoff_def strip_def lstrip_def rstrip_def isspace_def)
  have f: "diagram_filename (clock example_env 0) ''GANs'' ''architecture'' None = ''GANs_architecture_20240517_093000.png''"
    by (simp add: diagram_filename_def example_stamp example_safe_topic)
  have d: "fst (generate_diagram (image_world example_env) ''/srv/images'' (clock example_env 0)
         ''Generative adversarial networks ...'' ''GANs'' ''architecture'' None)
      = Inr [(''success'', PBool True), (''filepath'', PStr ''/srv/images/GANs_architecture_20240517_093000.png''),
                (''filename'', PStr ''GANs_architecture_20240517_093000.png''),
                (''relative_path'', PStr ''/static/generated/images/GANs_architecture_20240517_093000.png''),
                (''topic'', PStr ''GANs''), (''diagram_type'', PStr ''architecture''),
                (''method'', PStr ''placeholder''),
                (''note'', PStr ''Placeholder image - Gemini image generation unavailable'')]"
    unfolding generate_diagram_def f Let_def
    by (simp add: example_env_def primary_attempt_def create_placeholder_image_def path_join_def
        startswith_def endswith_def)
  have g: "gemini example_env = Inr (\<lambda>prompt attempt. Inr ''Generative adversarial networks ...'')"
    "image_dir example_env = Inr ''/srv/images''"
    by (simp_all add: example_env_def)
  show ?thesis
    unfolding image_response_def g ebind_def sum.case p
    by (simp add: dict_get_def py_item_def d)
qed

lemma example_strip_answer: "strip ''Generative adversarial networks ...'' = ''Generative adversarial networks ...''"
  by (simp add: strip_def lstrip_def rstrip_def isspace_def)

lemma example_clean_answer: "clean_code ''Generative adversarial networks ...'' = ''Generative adversarial networks ...''"
  unfolding clean_code_def example_strip_answer Let_def
  by (simp add: startswith_def endswith_def example_strip_answer)

lemma example_scan_answer: "scan_code ''Generative adversarial networks ...'' = ({}, {})"
  unfolding scan_code_def split_nl_def
  by (simp add: scan_line_def example_strip_answer import_patterns_def scan_pattern_def re_match_def
      startswith_def)

lemma example_code_response: "code_response example_env ''GANs'' ''intermediate'' =
  Inr ([(''success'', PBool True), (''topic'', PStr ''GANs''),
        (''complexity'', PStr ''intermediate''),
        (''code'', PStr ''Generative adversarial networks ...''),
        (''dependencies'', PDict [(''imports'', PList []), (''pip_packages'', PList []),
                                   (''install_command'', PNone)]),
        (''colab_setup'', PStr ''# No additional packages required - ready to run!''),
        (''local_setup'', PStr ''No additional packages required.''),
        (''line_count'', PInt 1),
        (''download_url'', PStr ''/static/generated/code/GANs_20240517_093000.py'')], 200)"
proof -
  have p: "fst (generate_code_example (\<lambda>prompt attempt. Inr ''Generative adversarial networks ...'') ''GANs'' ''intermediate'')
     = Inr [(''topic'', PStr ''GANs''), (''complexity'', PStr ''intermediate''),
            (''code'', PStr ''Generative adversarial networks ...''), (''success'', PBool True)]"
    by (simp add: generate_code_example_def retry_with_backoff_def example_clean_answer)
  have dd: "detect_dependencies ''Generative adversarial networks ...'' =
      [(''imports'', PList []), (''pip_packages'', PList []), (''install_command'', PNone)]"
    by (simp add: detect_dependencies_def example_scan_answer)
  have nl: "split_nl ''Generative adversarial networks ...'' = [''Generative adversarial networks ...'']"
    by (simp add: split_nl_def)
  have fm: "format_code_response ''Generative adversarial networks ...'' ''GANs'' ''intermediate'' =
      [(''code'', PStr ''Generative adversarial networks ...''), (''topic'', PStr ''GANs''),
       (''complexity'', PStr ''intermediate''),
       (''dependencies'', PDict [(''imports'', PList []), (''pip_packages'', PList []),
                                   (''install_command'', PNone)]),
       (''colab_setup'', PStr ''# No additional packages required - ready to run!''),
       (''local_setup'', PStr ''No additional packages required.''),
       (''line_count'', PInt 1)]"
    unfolding format_code_response_def dd nl Let_def
    by (simp add: dict_get_def generate_colab_setup_def generate_local_setup_def)
  have fn: "code_filename (clock example_env 0) ''GANs'' None = ''GANs_20240517_093000.py''"
    by (simp add: code_filename_def example_stamp example_safe_topic endswith_def)
  have sv: "fst (save_code_file ''/srv/code'' (clock example_env 0) (clock example_env (Suc 0)) (fs_write example_env)
              ''Generative adversarial networks ...'' ''GANs'' None) =
      [(''success'', PBool True), (''filepath'', PStr ''/srv/code/GANs_20240517_093000.py''),
       (''filename'', PStr ''GANs_20240517_093000.py''),
       (''relative_path'', PStr ''/static/generated/code/GANs_20240517_093000.py'')]"
    unfolding save_code_file_def fn Let_def
    by (simp add: example_env_def path_join_def startswith_def endswith_def)
  have g: "gemini example_env = Inr (\<lambda>prompt attempt. Inr ''Generative adversarial networks ...'')"
    "code_dir example_env = Inr ''/srv/code''"
    by (simp_all add: example_env_def)
  show ?thesis
    unfolding code_response_def g ebind_def sum.case p
    by (simp add: dict_get_def py_item_def fm sv Let_def)
qed

lemma example_text_response: "text_response example_env ''GANs'' ''comprehensive'' =
  Inr ([(''topic'', PStr ''GANs''), (''depth'', PStr ''comprehensive''),
        (''content'', PStr ''Generative adversarial networks ...''),
        (''success'', PBool True)], 200)"
  by (simp add: text_response_def ebind_def example_env_def generate_text_explanation_def
      retry_with_backoff_def)

theorem enum_defaults_witness:
  "api_generate_text example_env
     (Inr (PDict [(''topic'', PStr '' GANs ''), (''depth'', PStr ''deep'')]))
   = ([(''topic'', PStr ''GANs''), (''depth'', PStr ''comprehensive''),
       (''content'', PStr ''Generative adversarial networks ...''),
       (''success'', PBool True)], 200)
   \<and> api_generate_code example_env
     (Inr (PDict [(''topic'', PStr '' GANs ''), (''complexity'', PStr ''expert'')]))
   = ([(''success'', PBool True), (''topic'', PStr ''GANs''),
       (''complexity'', PStr ''intermediate''),
       (''code'', PStr ''Generative adversarial networks ...''),
       (''dependencies'', PDict [(''imports'', PList []), (''pip_packages'', PList []),
                                  (''install_command'', PNone)]),
       (''colab_setup'', PStr ''# No additional packages required - ready to run!''),
       (''local_setup'', PStr ''No additional packages required.''),
       (''line_count'', PInt 1),
       (''download_url'', PStr ''/static/generated/code/GANs_20240517_093000.py'')], 200)
   \<and> api_generate_image example_env
     (Inr (PDict [(''topic'', PStr '' GANs ''), (''diagram_type'', PInt 3)]))
   = ([(''success'', PBool True), (''topic'', PStr ''GANs''),
       (''diagram_type'', PStr ''architecture''),
       (''image_url'', PStr ''/static/generated/images/GANs_architecture_20240517_093000.png''),
       (''filename'', PStr ''GANs_architecture_20240517_093000.png''),
       (''method'', PStr ''placeholder''),
       (''prompt'', PStr ''Generative adversarial networks ...'')], 200)"
  using
    enum_defaults [of "[(''topic'', PStr '' GANs ''), (''depth'', PStr ''deep'')]"
      "'' GANs ''" "PStr ''deep''" example_env]
    enum_defaults [of "[(''topic'', PStr '' GANs ''), (''complexity'', PStr ''expert'')]"
      "'' GANs ''" "PStr ''expert''" example_env]
    enum_defaults [of "[(''topic'', PStr '' GANs ''), (''diagram_type'', PInt 3)]"
      "'' GANs ''" "PInt 3" example_env]
  by (simp add: example_strip_topic example_text_response example_code_response example_image_response)

section \<open>Diagrams\<close>

lemma use_parts_find:
  "use_parts env filepath parts =
     (case find (\<lambda>p. inline_data p \<noteq> None) parts of
        None \<Rightarrow> (Inr False, [])
      | Some p \<Rightarrow>
          (case b64decode env (the (inline_data p)) of
             Inl e \<Rightarrow> (Inl e, [])
           | Inr image_data \<Rightarrow>
               (case write_file env filepath image_data of
                  Some e \<Rightarrow> (Inl e, [])
                | None \<Rightarrow> (Inr True, [WriteFile filepath image_data]))))"
  by (induction parts) (auto split: option.splits)

lemma create_placeholder_image_returns:
  "\<exists>result events. create_placeholder_image env topic diagram_type filename filepath
      = (Inr result, events) \<and>
     map_of result ''success'' = Some (PBool (save_placeholder env topic diagram_type filepath = None))"
  by (cases "save_placeholder env topic diagram_type filepath")
    (simp_all add: create_placeholder_image_def)

text \<open>
  Claim C1. For every prompt, topic, diagram type and file name, \<open>generate_diagram\<close>
  returns a dictionary and raises nothing, and the \<open>success\<close> entry of the dictionary is
  true exactly when the primary attempt ends by returning (the inner \<open>try\<close> block reaches
  its \<open>return\<close>) or saving the placeholder raises nothing. In particular it is true when
  the call of the image model raises and the placeholder is saved.
\<close>

theorem generate_diagram_never_raises:
  "let filepath = path_join output_dir (diagram_filename now topic diagram_type filename);
       primary_ok = (fst (primary_attempt env prompt filepath) = Inr True);
       fallback_ok = (save_placeholder env topic diagram_type filepath = None)
   in \<exists>result events.
        generate_diagram env output_dir now prompt topic diagram_type filename
          = (Inr result, events) \<and>
        map_of result ''success'' = Some (PBool (primary_ok \<or> fallback_ok)) \<and>
        ((\<exists>e. backend env (enhanced_prompt prompt) = Inl e) \<and> fallback_ok
           \<longrightarrow> map_of result ''success'' = Some (PBool True))"
proof -
  define fname where "fname = diagram_filename now topic diagram_type filename"
  define filepath where "filepath = path_join output_dir fname"
  obtain pr evs where pa: "primary_attempt env prompt filepath = (pr, evs)"
    by (cases "primary_attempt env prompt filepath")
  obtain result events where ph:
    "create_placeholder_image env topic diagram_type fname filepath = (Inr result, events)"
    "map_of result ''success'' = Some (PBool (save_placeholder env topic diagram_type filepath = None))"
    using create_placeholder_image_returns by blast
  have "\<exists>result events.
        generate_diagram env output_dir now prompt topic diagram_type filename
          = (Inr result, events) \<and>
        map_of result ''success'' = Some (PBool (pr = Inr True \<or>
           save_placeholder env topic diagram_type filepath = None))"
  proof (cases pr)
    case (Inl e)
    then show ?thesis
      unfolding generate_diagram_def Let_def fname_def [symmetric] filepath_def [symmetric]
      using pa ph by simp
  next
    case (Inr b)
    then show ?thesis
      unfolding generate_diagram_def Let_def fname_def [symmetric] filepath_def [symmetric]
      using pa ph by (cases b) simp_all
  qed
  then show ?thesis
    unfolding Let_def fname_def [symmetric] filepath_def [symmetric] pa fst_conv
    by auto
qed


lemma example_diagram_path:
  "path_join ''/srv/images'' (diagram_filename (clock example_env 0) ''GANs'' ''architecture'' None)
     = ''/srv/images/GANs_architecture_20240517_093000.png''"
  by (simp add: diagram_filename_def example_stamp safe_topic_def isalnum_def path_join_def
      startswith_def endswith_def)

theorem generate_diagram_never_raises_witness:
  "\<exists>result events.
     generate_diagram (image_world example_env) ''/srv/images'' (clock example_env 0)
       ''a diagram of GANs'' ''GANs'' ''architecture'' None = (Inr result, events) \<and>
     map_of result ''success'' = Some (PBool True)"
proof -
  have b: "backend (image_world example_env) (enhanced_prompt ''a diagram of GANs'')
      = Inl (Exn ''NotFound'' ''404 model not found'')"
    by (simp add: example_env_def)
  have f: "save_placeholder (image_world example_env) ''GANs'' ''architecture''
      ''/srv/images/GANs_architecture_20240517_093000.png'' = None"
    by (simp add: example_env_def)
  show ?thesis
    using generate_diagram_never_raises [of "''/srv/images''" "clock example_env 0" "''GANs''"
        "''architecture''" None "image_world example_env" "''a diagram of GANs''"]
    unfolding Let_def example_diagram_path
    by (simp add: b f)
qed

text \<open>
  Claim C3, as the code has it. When the first candidate of the response has a part
  with inline data, and decoding the data of the first such part and writing the bytes
  to the derived path raise nothing, \<open>generate_diagram\<close> writes exactly these bytes to
  that path and returns the method "gemini". When the primary attempt does not end by
  returning, the method is "placeholder" if the placeholder is saved, and there is no
  method entry otherwise.
\<close>

theorem generate_diagram_method:
  "filepath = path_join output_dir (diagram_filename now topic diagram_type filename) \<Longrightarrow>
   (backend env (enhanced_prompt prompt) = Inr (parts # others) \<and>
    find (\<lambda>p. inline_data p \<noteq> None) parts = Some (Part (Some d)) \<and>
    b64decode env d = Inr image_data \<and> write_file env filepath image_data = None
    \<longrightarrow>
    generate_diagram env output_dir now prompt topic diagram_type filename =
      (Inr [(''success'', PBool True), (''filepath'', PStr filepath),
            (''filename'', PStr (diagram_filename now topic diagram_type filename)),
            (''relative_path'',
               PStr (''/static/generated/images/''
                     @ diagram_filename now topic diagram_type filename)),
            (''topic'', PStr topic), (''diagram_type'', PStr diagram_type),
            (''method'', PStr ''gemini'')],
       [WriteFile filepath image_data])) \<and>
   (fst (primary_attempt env prompt filepath) \<noteq> Inr True \<longrightarrow>
    (\<exists>result events.
       generate_diagram env output_dir now prompt topic diagram_type filename
         = (Inr result, events) \<and>
       map_of result ''method'' =
         (if save_placeholder env topic diagram_type filepath = None
          then Some (PStr ''placeholder'') else None)))"
proof -
  assume fp: "filepath = path_join output_dir (diagram_filename now topic diagram_type filename)"
  define fname where "fname = diagram_filename now topic diagram_type filename"
  have fp': "path_join output_dir fname = filepath" unfolding fname_def fp ..
  have 1: "generate_diagram env output_dir now prompt topic diagram_type filename =
      (Inr [(''success'', PBool True), (''filepath'', PStr filepath),
            (''filename'', PStr fname),
            (''relative_path'', PStr (''/static/generated/images/'' @ fname)),
            (''topic'', PStr topic), (''diagram_type'', PStr diagram_type),
            (''method'', PStr ''gemini'')],
       [WriteFile filepath image_data])"
    if h: "backend env (enhanced_prompt prompt) = Inr (parts # others)"
      "find (\<lambda>p. inline_data p \<noteq> None) parts = Some (Part (Some d))"
      "b64decode env d = Inr image_data" "write_file env filepath image_data = None"
  proof -
    from h(2) have ne: "parts \<noteq> []" by auto
    have pa: "primary_attempt env prompt filepath = (Inr True, [WriteFile filepath image_data])"
      using h ne by (simp add: primary_attempt_def use_parts_find)
    show ?thesis
      unfolding generate_diagram_def Let_def fname_def [symmetric] fp' pa
      by simp
  qed
  have 2: "\<exists>result events.
       generate_diagram env output_dir now prompt topic diagram_type filename
         = (Inr result, events) \<and>
       map_of result ''method'' =
         (if save_placeholder env topic diagram_type filepath = None
          then Some (PStr ''placeholder'') else None)"
    if h: "fst (primary_attempt env prompt filepath) \<noteq> Inr True"
  proof -
    obtain pr evs where pa: "primary_attempt env prompt filepath = (pr, evs)"
      by (cases "primary_attempt env prompt filepath")
    with h have pr: "pr \<noteq> Inr True" by simp
    show ?thesis
    proof (cases pr)
      case (Inl e)
      then show ?thesis
        unfolding generate_diagram_def Let_def fname_def [symmetric] fp' pa
        by (cases "save_placeholder env topic diagram_type filepath")
          (simp_all add: create_placeholder_image_def)
    next
      case (Inr b)
      with pr have "pr = Inr False" by simp
      then show ?thesis
        unfolding generate_diagram_def Let_def fname_def [symmetric] fp' pa
        by (cases "save_placeholder env topic diagram_type filepath")
          (simp_all add: create_placeholder_image_def)
    qed
  qed
  from 1 2 show ?thesis unfolding fname_def by blast
qed

lemma inline_diagram_run:
  "generate_diagram inline_image_env ''/srv/images'' (clock example_env 0)
       ''a diagram of GANs'' ''GANs'' ''architecture'' None =
     (Inr [(''success'', PBool True),
           (''filepath'', PStr ''/srv/images/GANs_architecture_20240517_093000.png''),
           (''filename'', PStr ''GANs_architecture_20240517_093000.png''),
           (''relative_path'', PStr ''/static/generated/images/GANs_architecture_20240517_093000.png''),
           (''topic'', PStr ''GANs''), (''diagram_type'', PStr ''architecture''),
           (''method'', PStr ''gemini'')],
      [WriteFile ''/srv/images/GANs_architecture_20240517_093000.png'' ''hello''])"
  unfolding generate_diagram_def Let_def example_diagram_path
  by (simp add: primary_attempt_def inline_image_env_def diagram_filename_def example_stamp
      safe_topic_def isalnum_def)

theorem generate_diagram_method_witness:
  "generate_diagram inline_image_env ''/srv/images'' (clock example_env 0)
       ''a diagram of GANs'' ''GANs'' ''architecture'' None =
     (Inr [(''success'', PBool True),
           (''filepath'', PStr ''/srv/images/GANs_architecture_20240517_093000.png''),
           (''filename'', PStr ''GANs_architecture_20240517_093000.png''),
           (''relative_path'',
              PStr ''/static/generated/images/GANs_architecture_20240517_093000.png''),
           (''topic'', PStr ''GANs''), (''diagram_type'', PStr ''architecture''),
           (''method'', PStr ''gemini'')],
      [WriteFile ''/srv/images/GANs_architecture_20240517_093000.png'' ''hello''])
   \<and> (\<exists>result events.
         generate_diagram (image_world example_env) ''/srv/images'' (clock example_env 0)
           ''a diagram of GANs'' ''GANs'' ''architecture'' None = (Inr result, events) \<and>
         map_of result ''method'' = Some (PStr ''placeholder''))"
proof -
  have n: "diagram_filename (clock example_env 0) ''GANs'' ''architecture'' None
      = ''GANs_architecture_20240517_093000.png''"
    by (simp add: diagram_filename_def example_stamp safe_topic_def isalnum_def)
  note pj = example_diagram_path [unfolded n]
  have a: "generate_diagram inline_image_env ''/srv/images'' (clock example_env 0)
       ''a diagram of GANs'' ''GANs'' ''architecture'' None =
     (Inr [(''success'', PBool True),
           (''filepath'', PStr ''/srv/images/GANs_architecture_20240517_093000.png''),
           (''filename'', PStr ''GANs_architecture_20240517_093000.png''),
           (''relative_path'',
              PStr ''/static/generated/images/GANs_architecture_20240517_093000.png''),
           (''topic'', PStr ''GANs''), (''diagram_type'', PStr ''architecture''),
           (''method'', PStr ''gemini'')],
      [WriteFile ''/srv/images/GANs_architecture_20240517_093000.png'' ''hello''])"
    using generate_diagram_method [where env = inline_image_env
        and output_dir = "''/srv/images''" and now = "clock example_env 0"
        and topic = "''GANs''" and diagram_type = "''architecture''" and filename = None
        and prompt = "''a diagram of GANs''"
        and filepath = "''/srv/images/GANs_architecture_20240517_093000.png''"
        and parts = "[Part None, Part (Some ''aGVsbG8='')]" and others = "[]"
        and d = "''aGVsbG8=''" and image_data = "''hello''"]
    unfolding n pj
    by (simp add: inline_image_env_def)
  have p: "fst (primary_attempt (image_world example_env) ''a diagram of GANs''
         ''/srv/images/GANs_architecture_20240517_093000.png'') \<noteq> Inr True"
    by (simp add: primary_attempt_def example_env_def)
  have b: "\<exists>result events.
         generate_diagram (image_world example_env) ''/srv/images'' (clock example_env 0)
           ''a diagram of GANs'' ''GANs'' ''architecture'' None = (Inr result, events) \<and>
         map_of result ''method'' = Some (PStr ''placeholder'')"
    using generate_diagram_method [where env = "image_world example_env"
        and output_dir = "''/srv/images''" and now = "clock example_env 0"
        and topic = "''GANs''" and diagram_type = "''architecture''" and filename = None
        and prompt = "''a diagram of GANs''"
        and filepath = "''/srv/images/GANs_architecture_20240517_093000.png''"] p
    unfolding n pj
    by (simp add: example_env_def)
  from a b show ?thesis by (rule conjI)
qed

text \<open>The method of the primary path is "gemini", not "primary".\<close>

theorem generate_diagram_method_counterexample:
  "backend inline_image_env (enhanced_prompt ''a diagram of GANs'')
     = Inr [[Part None, Part (Some ''aGVsbG8='')]]
   \<and> map_of (case fst (generate_diagram inline_image_env ''/srv/images'' (clock example_env 0)
                         ''a diagram of GANs'' ''GANs'' ''architecture'' None) of
              Inl e \<Rightarrow> [] | Inr result \<Rightarrow> result) ''method'' = Some (PStr ''gemini'')
   \<and> map_of (case fst (generate_diagram inline_image_env ''/srv/images'' (clock example_env 0)
                         ''a diagram of GANs'' ''GANs'' ''architecture'' None) of
              Inl e \<Rightarrow> [] | Inr result \<Rightarrow> result) ''method'' \<noteq> Some (PStr ''primary'')"
  unfolding inline_diagram_run by (simp add: inline_image_env_def)

section \<open>Dependency detection\<close>

lemma isword_not_isspace: "isword c \<Longrightarrow> \<not> isspace c"
  unfolding isword_def isalnum_def isspace_def Let_def by auto

lemma re_match_matches: "re_match keyword line = Some name \<longleftrightarrow> matches_import keyword line name"
proof
  assume m: "re_match keyword line = Some name"
  define rest0 where "rest0 = drop (length keyword) line"
  define after where "after = dropWhile isspace rest0"
  from m have sw: "startswith line keyword"
    and len: "length after < length rest0" and name: "name = takeWhile isword after" "name \<noteq> []"
    unfolding re_match_def Let_def after_def rest0_def by (auto split: if_splits)
  have l: "line = keyword @ rest0"
    using sw unfolding rest0_def startswith_def by (metis append_take_drop_id)
  have r0: "rest0 = takeWhile isspace rest0 @ after"
    unfolding after_def by simp
  have ws: "takeWhile isspace rest0 \<noteq> []"
    using len r0 by (metis append_Nil less_irrefl)
  have a: "after = name @ dropWhile isword after"
    unfolding name by simp
  have tl: "dropWhile isword after = [] \<or> \<not> isword (hd (dropWhile isword after))"
    by (metis hd_dropWhile)
  have sp: "\<forall>c\<in>set (takeWhile isspace rest0). isspace c"
    by (metis set_takeWhileD)
  have wd: "\<forall>c\<in>set name. isword c"
    unfolding name by (metis set_takeWhileD)
  have "line = keyword @ takeWhile isspace rest0 @ name @ dropWhile isword after"
    using l r0 a by metis
  with ws sp name(2) wd tl show "matches_import keyword line name"
    unfolding matches_import_def by blast
next
  assume "matches_import keyword line name"
  then obtain ws rest where h: "line = keyword @ ws @ name @ rest"
    "ws \<noteq> []" "\<forall>c\<in>set ws. isspace c" "name \<noteq> []" "\<forall>c\<in>set name. isword c"
    "rest = [] \<or> \<not> isword (hd rest)"
    unfolding matches_import_def by blast
  have sw: "startswith line keyword" unfolding h(1) startswith_def by simp
  have d: "drop (length keyword) line = ws @ name @ rest" unfolding h(1) by simp
  have "\<not> isspace (hd name)" using h(4,5) isword_not_isspace by (metis hd_in_set)
  then have "dropWhile isspace (name @ rest) = name @ rest"
    using h(4) by (cases name) simp_all
  then have a: "dropWhile isspace (ws @ name @ rest) = name @ rest"
    using h(3) by (simp add: dropWhile_append2)
  have "takeWhile isword rest = []"
    using h(6) by (cases rest) simp_all
  then have t: "takeWhile isword (name @ rest) = name"
    using h(5) by (simp add: takeWhile_append2)
  have len: "length (name @ rest) < length (ws @ name @ rest)" using h(2) by simp
  show "re_match keyword line = Some name"
    unfolding re_match_def Let_def d a t using sw len h(4) by simp
qed

lemma scan_pattern_sets:
  "fst (scan_pattern line st kw) = fst st \<union> {n. re_match kw line = Some n}"
  "snd (scan_pattern line st kw) = snd st \<union> {p. \<exists>n. re_match kw line = Some n \<and> package_of n p}"
  unfolding scan_pattern_def package_of_def is_stdlib_def
  by (auto split: option.splits)

lemma scan_line_sets:
  "fst (scan_line st line) = fst st \<union>
     {n. re_match ''import'' (strip line) = Some n \<or> re_match ''from'' (strip line) = Some n}"
  "snd (scan_line st line) = snd st \<union>
     {p. \<exists>n. (re_match ''import'' (strip line) = Some n \<or> re_match ''from'' (strip line) = Some n)
            \<and> package_of n p}"
  unfolding scan_line_def import_patterns_def
  by (auto simp: scan_pattern_sets)

lemma foldl_scan_line_sets:
  "fst (foldl scan_line st ls) = fst st \<union>
     {n. \<exists>line\<in>set ls. re_match ''import'' (strip line) = Some n \<or>
                          re_match ''from'' (strip line) = Some n}"
  "snd (foldl scan_line st ls) = snd st \<union>
     {p. \<exists>n. (\<exists>line\<in>set ls. re_match ''import'' (strip line) = Some n \<or>
                          re_match ''from'' (strip line) = Some n) \<and> package_of n p}"
proof (induction ls arbitrary: st)
  case Nil
  { case 1 show ?case by simp }
  { case 2 show ?case by simp }
next
  case (Cons l ls)
  { case 1 show ?case unfolding foldl_Cons Cons.IH(1) scan_line_sets by auto }
  { case 2 show ?case unfolding foldl_Cons Cons.IH(2) scan_line_sets by auto }
qed

lemma scan_pattern_finite:
  "finite (fst st) \<Longrightarrow> finite (snd st) \<Longrightarrow>
   finite (fst (scan_pattern line st kw)) \<and> finite (snd (scan_pattern line st kw))"
  unfolding scan_pattern_def by (auto split: option.splits)

lemma scan_line_finite:
  "finite (fst st) \<Longrightarrow> finite (snd st) \<Longrightarrow>
   finite (fst (scan_line st line)) \<and> finite (snd (scan_line st line))"
  unfolding scan_line_def import_patterns_def
  using scan_pattern_finite by simp

lemma foldl_scan_line_finite:
  "finite (fst st) \<Longrightarrow> finite (snd st) \<Longrightarrow>
   finite (fst (foldl scan_line st ls)) \<and> finite (snd (foldl scan_line st ls))"
  by (induction ls arbitrary: st) (simp_all add: scan_line_finite)

text \<open>
  Claim C2, as the code has it. For every code text, the imports are exactly the names
  of the lines that, with the whitespace at both ends removed, match \<open>^import <name>\<close>
  or \<open>^from <name>\<close>; the packages are exactly the packages these imports stand for
  (alias table first, standard library dropped, anything else verbatim); both lists
  are without duplicates and sorted in the order of the code points (capital letters
  before small ones); and the install command is absent exactly when the package list
  is empty, and otherwise "pip install" followed by the packages joined by spaces. For
  the text of two lines \<open>import numpy as np\<close> and \<open>from os import path\<close> the packages
  contain "numpy" and not "os".
\<close>

theorem detect_dependencies_spec:
  "let imports = {name. \<exists>line\<in>set (split_nl code).
                     matches_import ''import'' (strip line) name \<or>
                     matches_import ''from'' (strip line) name};
       packages = {p. \<exists>name\<in>imports. package_of name p}
   in \<exists>imps pkgs.
        detect_dependencies code =
          [(''imports'', PList (map PStr imps)),
           (''pip_packages'', PList (map PStr pkgs)),
           (''install_command'',
              if pkgs = [] then PNone else PStr (''pip install '' @ join '' '' pkgs))] \<and>
        set imps = imports \<and> sorted imps \<and> distinct imps \<and>
        set pkgs = packages \<and> sorted pkgs \<and> distinct pkgs"
proof -
  define I where "I = fst (scan_code code)"
  define P where "P = snd (scan_code code)"
  define M where "M = (\<lambda>n. \<exists>line\<in>set (split_nl code).
                     matches_import ''import'' (strip line) n \<or>
                     matches_import ''from'' (strip line) n)"
  have fin: "finite I" "finite P"
    unfolding I_def P_def scan_code_def
    using foldl_scan_line_finite [of "({}, {})" "split_nl code"] by simp_all
  have I: "I = {name. M name}"
    unfolding I_def scan_code_def foldl_scan_line_sets(1) M_def re_match_matches by simp
  have P: "P = {p. \<exists>name\<in>I. package_of name p}"
  proof -
    have "P = {p. \<exists>n. M n \<and> package_of n p}"
      unfolding P_def scan_code_def foldl_scan_line_sets(2) M_def re_match_matches by simp
    also have "\<dots> = {p. \<exists>name\<in>I. package_of name p}"
      unfolding I by blast
    finally show ?thesis .
  qed
  have e: "(P \<noteq> {}) = (sorted_list_of_set P \<noteq> [])"
    using fin(2) by (simp add: sorted_list_of_set_eq_Nil_iff)
  have d: "detect_dependencies code =
          [(''imports'', PList (map PStr (sorted_list_of_set I))),
           (''pip_packages'', PList (map PStr (sorted_list_of_set P))),
           (''install_command'',
              if sorted_list_of_set P = [] then PNone
              else PStr (''pip install '' @ join '' '' (sorted_list_of_set P)))]"
    unfolding detect_dependencies_def Let_def I_def [symmetric] P_def [symmetric] e
    by (cases "sorted_list_of_set P = []") (simp_all only: if_P if_not_P not_not not_False_eq_True)
  have sI: "set (sorted_list_of_set I) = I" "sorted (sorted_list_of_set I)"
    "distinct (sorted_list_of_set I)"
    using fin(1) by simp_all
  have sP: "set (sorted_list_of_set P) = P" "sorted (sorted_list_of_set P)"
    "distinct (sorted_list_of_set P)"
    using fin(2) by simp_all
  have "\<exists>imps pkgs.
        detect_dependencies code =
          [(''imports'', PList (map PStr imps)),
           (''pip_packages'', PList (map PStr pkgs)),
           (''install_command'',
              if pkgs = [] then PNone else PStr (''pip install '' @ join '' '' pkgs))] \<and>
        set imps = I \<and> sorted imps \<and> distinct imps \<and>
        set pkgs = P \<and> sorted pkgs \<and> distinct pkgs"
    by (rule exI [of _ "sorted_list_of_set I"], rule exI [of _ "sorted_list_of_set P"])
      (intro conjI d sI sP)
  then show ?thesis
    unfolding Let_def I [symmetric, unfolded M_def] P [symmetric] .
qed

lemma example_lines:
  "split_nl ''import numpy as np\<newline>from os import path'' =
     [''import numpy as np'', ''from os import path'']"
  by (simp add: split_nl_def)

lemma example_strip_lines:
  "strip ''import numpy as np'' = ''import numpy as np''"
  "strip ''from os import path'' = ''from os import path''"
  by (simp_all add: strip_def lstrip_def rstrip_def isspace_def)

lemma example_matches:
  "re_match ''import'' ''import numpy as np'' = Some ''numpy''"
  "re_match ''from'' ''import numpy as np'' = None"
  "re_match ''import'' ''from os import path'' = None"
  "re_match ''from'' ''from os import path'' = Some ''os''"
  by (simp_all add: re_match_def startswith_def isspace_def isword_def isalnum_def)

lemma example_packages:
  "package_of ''numpy'' p \<longleftrightarrow> p = ''numpy''" "\<not> package_of ''os'' p"
  by (simp_all add: package_of_def KNOWN_PACKAGES_def stdlib_modules_def)

lemma example_imports:
  "(\<exists>line\<in>set (split_nl ''import numpy as np\<newline>from os import path'').
       matches_import ''import'' (strip line) name \<or>
       matches_import ''from'' (strip line) name)
   \<longleftrightarrow> name = ''numpy'' \<or> name = ''os''"
proof -
  have "(\<exists>line\<in>set (split_nl ''import numpy as np\<newline>from os import path'').
       matches_import ''import'' (strip line) name \<or>
       matches_import ''from'' (strip line) name)
    \<longleftrightarrow> (re_match ''import'' (strip ''import numpy as np'') = Some name \<or>
         re_match ''from'' (strip ''import numpy as np'') = Some name) \<or>
        (re_match ''import'' (strip ''from os import path'') = Some name \<or>
         re_match ''from'' (strip ''from os import path'') = Some name)"
    unfolding example_lines re_match_matches [symmetric]
    by (simp only: list.set bex_simps insert_iff empty_iff Bex_def) blast
  also have "\<dots> \<longleftrightarrow> name = ''numpy'' \<or> name = ''os''"
    unfolding example_strip_lines example_matches
    by (simp only: option.inject option.distinct simp_thms) (rule disj_cong; rule eq_commute)
  finally show ?thesis .
qed

theorem detect_dependencies_spec_witness:
  "\<exists>imps pkgs.
     detect_dependencies ''import numpy as np\<newline>from os import path'' =
       [(''imports'', PList (map PStr imps)),
        (''pip_packages'', PList (map PStr pkgs)),
        (''install_command'',
           if pkgs = [] then PNone else PStr (''pip install '' @ join '' '' pkgs))] \<and>
     set imps = {''numpy'', ''os''} \<and> ''numpy'' \<in> set pkgs \<and> ''os'' \<notin> set pkgs"
proof -
  have i: "{name. \<exists>line\<in>set (split_nl ''import numpy as np\<newline>from os import path'').
                     matches_import ''import'' (strip line) name \<or>
                     matches_import ''from'' (strip line) name} = {''numpy'', ''os''}"
    unfolding example_imports by blast
  have p: "{p. \<exists>name\<in>{''numpy'', ''os''}. package_of name p} = {''numpy''}"
  proof -
    have "(\<exists>name\<in>{''numpy'', ''os''}. package_of name p) \<longleftrightarrow> p = ''numpy''" for p
      by (simp only: bex_simps insert_iff empty_iff Bex_def) (metis example_packages)
    then show ?thesis by (simp only: singleton_conv)
  qed
  from detect_dependencies_spec [of "''import numpy as np\<newline>from os import path''",
      unfolded Let_def i p]
  obtain imps pkgs where d:
    "detect_dependencies ''import numpy as np\<newline>from os import path'' =
       [(''imports'', PList (map PStr imps)),
        (''pip_packages'', PList (map PStr pkgs)),
        (''install_command'',
           if pkgs = [] then PNone else PStr (''pip install '' @ join '' '' pkgs))]"
    and s: "set imps = {''numpy'', ''os''}" "set pkgs = {''numpy''}"
    by (elim exE conjE)
  have n: "''numpy'' \<in> set pkgs" unfolding s by (rule insertI1)
  have o: "''os'' \<notin> set pkgs" unfolding s by simp
  from d s(1) n o show ?thesis
    by (intro exI [of _ imps] exI [of _ pkgs] conjI)
qed

lemma indented_import_run:
  "detect_dependencies ''  import foo'' =
     [(''imports'', PList [PStr ''foo'']), (''pip_packages'', PList [PStr ''foo'']),
      (''install_command'', PStr ''pip install foo'')]"
proof -
  have s: "strip ''  import foo'' = ''import foo''"
    by (simp add: strip_def lstrip_def rstrip_def isspace_def)
  have m: "re_match ''import'' ''import foo'' = Some ''foo''"
    "re_match ''from'' ''import foo'' = None"
    by (simp_all add: re_match_def startswith_def isspace_def isword_def isalnum_def)
  have k: "map_of KNOWN_PACKAGES ''foo'' = None" "\<not> is_stdlib ''foo''"
    by (simp_all add: KNOWN_PACKAGES_def is_stdlib_def stdlib_modules_def)
  have sc: "scan_code ''  import foo'' = ({''foo''}, {''foo''})"
    unfolding scan_code_def split_nl_def
    by (simp add: scan_line_def s import_patterns_def scan_pattern_def m k)
  show ?thesis
    unfolding detect_dependencies_def sc Let_def by simp
qed

lemma mixed_case_run:
  "detect_dependencies ''import numpy\<newline>import PIL'' =
     [(''imports'', PList [PStr ''PIL'', PStr ''numpy'']),
      (''pip_packages'', PList [PStr ''Pillow'', PStr ''numpy'']),
      (''install_command'', PStr ''pip install Pillow numpy'')]"
proof -
  have s: "strip ''import numpy'' = ''import numpy''" "strip ''import PIL'' = ''import PIL''"
    by (simp_all add: strip_def lstrip_def rstrip_def isspace_def)
  have m: "re_match ''import'' ''import numpy'' = Some ''numpy''"
    "re_match ''from'' ''import numpy'' = None"
    "re_match ''import'' ''import PIL'' = Some ''PIL''"
    "re_match ''from'' ''import PIL'' = None"
    by (simp_all add: re_match_def startswith_def isspace_def isword_def isalnum_def)
  have k: "map_of KNOWN_PACKAGES ''numpy'' = Some ''numpy''"
    "map_of KNOWN_PACKAGES ''PIL'' = Some ''Pillow''"
    by (simp_all add: KNOWN_PACKAGES_def)
  have sc: "scan_code ''import numpy\<newline>import PIL''
      = (set [''numpy'', ''PIL''], set [''numpy'', ''Pillow''])"
    unfolding scan_code_def split_nl_def
    by (simp add: scan_line_def s import_patterns_def scan_pattern_def m k insert_commute)
  have o: "sorted_list_of_set (set [''numpy'', ''PIL'']) = [''PIL'', ''numpy'']"
    "sorted_list_of_set (set [''numpy'', ''Pillow'']) = [''Pillow'', ''numpy'']"
    unfolding sorted_list_of_set_sort_remdups by simp_all
  have ne: "set [''numpy'', ''Pillow''] \<noteq> {}" by simp
  show ?thesis
    unfolding detect_dependencies_def sc Let_def fst_conv snd_conv o
    using ne by simp
qed

text \<open>An indented import line does not match \<open>^import <name>\<close> as it stands, and is
  found all the same, because each line is trimmed first; and "PIL" comes before
  "numpy" in the sorted lists.\<close>

theorem detect_dependencies_spec_counterexample:
  "\<not> matches_import ''import'' ''  import foo'' ''foo''
   \<and> \<not> matches_import ''from'' ''  import foo'' ''foo''
   \<and> detect_dependencies ''  import foo'' =
       [(''imports'', PList [PStr ''foo'']), (''pip_packages'', PList [PStr ''foo'']),
        (''install_command'', PStr ''pip install foo'')]
   \<and> detect_dependencies ''import numpy\<newline>import PIL'' =
       [(''imports'', PList [PStr ''PIL'', PStr ''numpy'']),
        (''pip_packages'', PList [PStr ''Pillow'', PStr ''numpy'']),
        (''install_command'', PStr ''pip install Pillow numpy'')]"
proof -
  have r: "re_match ''import'' ''  import foo'' = None" "re_match ''from'' ''  import foo'' = None"
    by (simp_all add: re_match_def startswith_def)
  have a: "\<not> matches_import ''import'' ''  import foo'' ''foo''"
    unfolding re_match_matches [symmetric] r by simp
  have b: "\<not> matches_import ''from'' ''  import foo'' ''foo''"
    unfolding re_match_matches [symmetric] r by simp
  from a b indented_import_run mixed_case_run show ?thesis by (intro conjI)
qed

section \<open>Saving the code\<close>

lemma endswith_append: "endswith (xs @ p) p"
  unfolding endswith_def by simp

lemma code_filename_generated:
  "filename = None \<or> filename = Some [] \<Longrightarrow>
   code_filename now topic filename =
     safe_topic topic @ ''_'' @ strftime_compact now @ ''.py''"
proof -
  assume f: "filename = None \<or> filename = Some []"
  have e: "endswith (safe_topic topic @ ''_'' @ strftime_compact now @ ''.py'') ''.py''"
    using endswith_append [of "safe_topic topic @ ''_'' @ strftime_compact now" "''.py''"]
    by simp
  from f show ?thesis
  proof
    assume "filename = None"
    then show ?thesis unfolding code_filename_def Let_def using e by simp
  next
    assume "filename = Some []"
    then show ?thesis unfolding code_filename_def Let_def using e by simp
  qed
qed

text \<open>
  Claim C5. Without a file name (\<open>None\<close> or the empty string), \<open>save_code_file\<close> names
  the file after the first 30 characters of the topic, each character that is not
  alphanumeric replaced by an underscore, followed by an underscore, the time stamp and
  \<open>.py\<close>; it writes to that name under the output directory the header comment (three
  quotes, the generator line, the line "Topic: " with the topic as it is, the line
  "Generated: " with the time, three quotes, an empty line) followed by the code, and
  returns the name and the paths; if the write raises it returns the failure result.
  For the topic "Gradient Descent" the file is \<open>Gradient_Descent_<timestamp>.py\<close>.
\<close>

theorem save_code_file_derives:
  "filename = None \<or> filename = Some [] \<Longrightarrow>
   (let name = map (\<lambda>c. if isalnum c then c else CHR ''_'') (take 30 topic)
                 @ ''_'' @ strftime_compact now1 @ ''.py'';
        path = path_join output_dir name;
        content = [CHR 0x22, CHR 0x22, CHR 0x22]
                  @ ''\<newline>Generated by GyanGuru - AI ML Learning Assistant\<newline>Topic: '' @ topic
                  @ ''\<newline>Generated: '' @ strftime_iso now2 @ ''\<newline>''
                  @ [CHR 0x22, CHR 0x22, CHR 0x22] @ ''\<newline>\<newline>'' @ code
    in save_code_file output_dir now1 now2 write code topic filename =
         (case write path content of
            None \<Rightarrow>
              ([(''success'', PBool True), (''filepath'', PStr path), (''filename'', PStr name),
                (''relative_path'', PStr (''/static/generated/code/'' @ name))],
               [(path, content)])
          | Some e \<Rightarrow>
              ([(''success'', PBool False), (''error'', PStr (exn_str e)),
                (''filepath'', PNone)], [])))"
proof -
  assume f: "filename = None \<or> filename = Some []"
  have n: "code_filename now1 topic filename =
      map (\<lambda>c. if isalnum c then c else CHR ''_'') (take 30 topic)
                 @ ''_'' @ strftime_compact now1 @ ''.py''"
    using code_filename_generated [OF f] unfolding safe_topic_def .
  have h: "code_header now2 topic @ code = [CHR 0x22, CHR 0x22, CHR 0x22]
                  @ ''\<newline>Generated by GyanGuru - AI ML Learning Assistant\<newline>Topic: '' @ topic
                  @ ''\<newline>Generated: '' @ strftime_iso now2 @ ''\<newline>''
                  @ [CHR 0x22, CHR 0x22, CHR 0x22] @ ''\<newline>\<newline>'' @ code"
    unfolding code_header_def by (simp only: append_assoc)
  show ?thesis
    unfolding Let_def save_code_file_def n h ..
qed

theorem save_code_file_derives_witness:
  "save_code_file ''/srv/code'' (clock example_env 0) (clock example_env 1)
       (\<lambda>path content. None) ''print(1)'' ''Gradient Descent'' None =
     ([(''success'', PBool True),
       (''filepath'', PStr ''/srv/code/Gradient_Descent_20240517_093000.py''),
       (''filename'', PStr ''Gradient_Descent_20240517_093000.py''),
       (''relative_path'', PStr ''/static/generated/code/Gradient_Descent_20240517_093000.py'')],
      [(''/srv/code/Gradient_Descent_20240517_093000.py'',
        [CHR 0x22, CHR 0x22, CHR 0x22]
        @ ''\<newline>Generated by GyanGuru - AI ML Learning Assistant\<newline>Topic: Gradient Descent\<newline>Generated: 2024-05-17 09:30:01\<newline>''
        @ [CHR 0x22, CHR 0x22, CHR 0x22] @ ''\<newline>\<newline>print(1)'')])"
proof -
  have n: "map (\<lambda>c. if isalnum c then c else CHR ''_'') (take 30 ''Gradient Descent'')
      = ''Gradient_Descent''"
    by (simp add: isalnum_def)
  have pj: "path_join ''/srv/code'' ''Gradient_Descent_20240517_093000.py''
      = ''/srv/code/Gradient_Descent_20240517_093000.py''"
    by (simp add: path_join_def startswith_def endswith_def)
  have nm: "''Gradient_Descent'' @ ''_'' @ ''20240517_093000'' @ ''.py''
      = ''Gradient_Descent_20240517_093000.py''" by simp
  show ?thesis
    using save_code_file_derives [of None "''Gradient Descent''" "clock example_env 0"
        "''/srv/code''" "clock example_env 1" "''print(1)''" "\<lambda>path content. None"]
    unfolding Let_def n example_stamp example_header_stamp nm pj
    by simp
qed

section \<open>Derived file names\<close>

lemma below_ten:
  "k < (10::nat) \<Longrightarrow>
   k = 0 \<or> k = 1 \<or> k = 2 \<or> k = 3 \<or> k = 4 \<or> k = 5 \<or> k = 6 \<or> k = 7 \<or> k = 8 \<or> k = 9"
  by arith

lemma digit_char: "digit n \<in> set ''0123456789''"
proof -
  have "n mod 10 < 10" by simp
  from below_ten [OF this] show ?thesis
    unfolding digit_def
    by (elim disjE) (simp_all add: char_of_def bit_iff_odd)
qed

lemma pad_chars:
  "c \<in> set (pad2 n) \<Longrightarrow> c \<in> set ''0123456789''"
  "c \<in> set (pad4 n) \<Longrightarrow> c \<in> set ''0123456789''"
proof -
  show "c \<in> set ''0123456789''" if "c \<in> set (pad2 n)"
  proof -
    from that have "c = digit (n div 10) \<or> c = digit n" unfolding pad2_def by simp
    then show ?thesis using digit_char by metis
  qed
  show "c \<in> set ''0123456789''" if "c \<in> set (pad4 n)"
  proof -
    from that have "c = digit (n div 1000) \<or> c = digit (n div 100) \<or> c = digit (n div 10)
        \<or> c = digit n"
      unfolding pad4_def by simp
    then show ?thesis using digit_char by metis
  qed
qed

lemma digits_alnum: "c \<in> set ''0123456789'' \<Longrightarrow> isalnum c"
  by (auto simp: isalnum_def)

lemma stamp_chars: "c \<in> set (strftime_compact now) \<Longrightarrow> c \<in> set ''0123456789_''"
proof -
  assume "c \<in> set (strftime_compact now)"
  then have "c \<in> set (pad4 (year now)) \<or> c \<in> set (pad2 (month now)) \<or>
      c \<in> set (pad2 (day now)) \<or> c = CHR ''_'' \<or> c \<in> set (pad2 (hour now)) \<or>
      c \<in> set (pad2 (minute now)) \<or> c \<in> set (pad2 (second now))"
    unfolding strftime_compact_def by (simp only: set_append Un_iff list.set insert_iff empty_iff simp_thms)
  then have "c \<in> set ''0123456789'' \<or> c = CHR ''_''"
    using pad_chars by metis
  then show ?thesis by auto
qed

lemma stamp_safe: "c \<in> set (strftime_compact now) \<Longrightarrow> isalnum c \<or> c = CHR ''_''"
proof -
  assume "c \<in> set (strftime_compact now)"
  from stamp_chars [OF this] have "c \<in> set ''0123456789'' \<or> c = CHR ''_''" by auto
  then show ?thesis using digits_alnum by metis
qed

lemma safe_topic_safe: "c \<in> set (safe_topic topic) \<Longrightarrow> isalnum c \<or> c = CHR ''_''"
  unfolding safe_topic_def by auto

lemma slash_unsafe: "isalnum c \<or> c = CHR ''_'' \<Longrightarrow> c \<noteq> CHR ''/''"
  by (auto simp: isalnum_def)

lemma diagram_filename_generated:
  "filename = None \<or> filename = Some [] \<Longrightarrow>
   diagram_filename now topic diagram_type filename =
     safe_topic topic @ ''_'' @ diagram_type @ ''_'' @ strftime_compact now @ ''.png''"
  unfolding diagram_filename_def Let_def by (elim disjE) simp_all

lemma code_stem_safe:
  "c \<in> set (safe_topic topic @ ''_'' @ strftime_compact now) \<Longrightarrow> isalnum c \<or> c = CHR ''_''"
proof -
  assume "c \<in> set (safe_topic topic @ ''_'' @ strftime_compact now)"
  then have "c \<in> set (safe_topic topic) \<or> c = CHR ''_'' \<or> c \<in> set (strftime_compact now)"
    by (simp only: set_append Un_iff list.set insert_iff empty_iff simp_thms)
  then show ?thesis using safe_topic_safe stamp_safe by metis
qed

lemma diagram_stem_safe:
  "\<forall>c\<in>set diagram_type. isalnum c \<or> c = CHR ''_'' \<Longrightarrow>
   c \<in> set (safe_topic topic @ ''_'' @ diagram_type @ ''_'' @ strftime_compact now) \<Longrightarrow>
   isalnum c \<or> c = CHR ''_''"
proof -
  assume d: "\<forall>c\<in>set diagram_type. isalnum c \<or> c = CHR ''_''"
  assume "c \<in> set (safe_topic topic @ ''_'' @ diagram_type @ ''_'' @ strftime_compact now)"
  then have "c \<in> set (safe_topic topic) \<or> c = CHR ''_'' \<or> c \<in> set diagram_type \<or>
      c \<in> set (strftime_compact now)"
    by (simp only: set_append Un_iff list.set insert_iff empty_iff simp_thms) blast
  then show ?thesis using safe_topic_safe stamp_safe d by metis
qed

lemma no_slash:
  "\<forall>c\<in>set stem. isalnum c \<or> c = CHR ''_'' \<Longrightarrow> ext = ''.py'' \<or> ext = ''.png'' \<Longrightarrow>
   CHR ''/'' \<notin> set (stem @ ext)"
proof -
  assume s: "\<forall>c\<in>set stem. isalnum c \<or> c = CHR ''_''" and e: "ext = ''.py'' \<or> ext = ''.png''"
  have "CHR ''/'' \<notin> set stem" using s slash_unsafe by metis
  moreover have "CHR ''/'' \<notin> set ext" using e by auto
  ultimately show ?thesis by simp
qed

lemma path_join_inside:
  "CHR ''/'' \<notin> set name \<Longrightarrow>
   path_join output_dir name =
     (if output_dir = [] \<or> endswith output_dir ''/'' then output_dir else output_dir @ ''/'')
     @ name"
proof -
  assume "CHR ''/'' \<notin> set name"
  then have "\<not> startswith name ''/''"
    unfolding startswith_def by (cases name) auto
  then show ?thesis unfolding path_join_def by simp
qed

lemma save_code_file_paths:
  "(p, content) \<in> set (snd (save_code_file output_dir now1 now2 write code topic filename)) \<Longrightarrow>
   p = path_join output_dir (code_filename now1 topic filename)"
  unfolding save_code_file_def Let_def
  by (cases "write (path_join output_dir (code_filename now1 topic filename))
               (code_header now2 topic @ code)") simp_all

lemma use_parts_events:
  "ev \<in> set (snd (use_parts env filepath parts)) \<Longrightarrow> \<exists>b. ev = WriteFile filepath b"
  unfolding use_parts_find by (auto split: option.splits sum.splits)

lemma primary_attempt_events:
  "ev \<in> set (snd (primary_attempt env prompt filepath)) \<Longrightarrow> \<exists>b. ev = WriteFile filepath b"
  unfolding primary_attempt_def using use_parts_events
  by (auto split: sum.splits list.splits if_splits)

lemma create_placeholder_image_events:
  "ev \<in> set (snd (create_placeholder_image env topic diagram_type filename filepath)) \<Longrightarrow>
   ev = SavePlaceholder topic diagram_type filepath"
  unfolding create_placeholder_image_def by (auto split: option.splits)

lemma generate_diagram_events:
  "ev \<in> set (snd (generate_diagram env output_dir now prompt topic diagram_type filename)) \<Longrightarrow>
   filepath = path_join output_dir (diagram_filename now topic diagram_type filename) \<Longrightarrow>
   (\<exists>b. ev = WriteFile filepath b) \<or> ev = SavePlaceholder topic diagram_type filepath \<or>
   (\<exists>m. ev = Print m)"
proof -
  define fname where "fname = diagram_filename now topic diagram_type filename"
  assume fp: "filepath = path_join output_dir (diagram_filename now topic diagram_type filename)"
  have fp': "path_join output_dir fname = filepath" unfolding fname_def fp ..
  obtain pr evs where pa: "primary_attempt env prompt filepath = (pr, evs)"
    by (cases "primary_attempt env prompt filepath")
  obtain r evs' where ph:
    "create_placeholder_image env topic diagram_type fname filepath = (r, evs')"
    by (cases "create_placeholder_image env topic diagram_type fname filepath")
  have e1: "\<forall>ev\<in>set evs. \<exists>b. ev = WriteFile filepath b"
    using primary_attempt_events [of _ env prompt filepath] unfolding pa by simp
  have e2: "\<forall>ev\<in>set evs'. ev = SavePlaceholder topic diagram_type filepath"
    using create_placeholder_image_events [of _ env topic diagram_type fname filepath]
    unfolding ph by simp
  obtain r' where r': "r = Inr r'"
    using ph unfolding create_placeholder_image_def by (auto split: option.splits)
  assume "ev \<in> set (snd (generate_diagram env output_dir now prompt topic diagram_type filename))"
  then have "ev \<in> set evs \<or> ev \<in> set evs' \<or> (\<exists>m. ev = Print m)"
    unfolding generate_diagram_def Let_def fname_def [symmetric] fp' pa ph r'
    by (cases pr; cases "projr pr") (auto split: if_splits)
  then show ?thesis using e1 e2 by blast
qed

lemma recognized_types_safe:
  "d \<in> {''architecture'', ''flowchart'', ''concept_map'', ''visualization''} \<Longrightarrow>
   c \<in> set d \<Longrightarrow> isalnum c \<or> c = CHR ''_''"
  by (auto simp: isalnum_def)

text \<open>
  Claim C10, as the code has it. Without a file name, the name \<open>save_code_file\<close>
  derives is the sanitized topic (its first 30 characters, each one that is not
  alphanumeric replaced by an underscore), an underscore and the time stamp (digits and
  one underscore), followed by \<open>.py\<close>: before the extension every character is
  alphanumeric or an underscore, the name has no \<open>/\<close>, and every file the function
  writes is the output directory, a separator when the directory does not end with
  one, and that name. The same holds for \<open>generate_diagram\<close>, with the diagram type
  between topic and time stamp and the extension \<open>.png\<close>, for every file it writes and
  every placeholder it saves, provided the diagram type itself consists of alphanumeric
  characters and underscores, as the four recognized types do.
\<close>

theorem derived_filenames_safe:
  "filename = None \<or> filename = Some [] \<Longrightarrow>
   (let name = code_filename now topic filename;
        stem = map (\<lambda>c. if isalnum c then c else CHR ''_'') (take 30 topic)
               @ ''_'' @ strftime_compact now;
        dir = (if output_dir = [] \<or> endswith output_dir ''/'' then output_dir
               else output_dir @ ''/'')
    in name = stem @ ''.py'' \<and>
       (\<forall>c\<in>set (strftime_compact now). c \<in> set ''0123456789_'') \<and>
       (\<forall>c\<in>set stem. isalnum c \<or> c = CHR ''_'') \<and>
       CHR ''/'' \<notin> set name \<and>
       (\<forall>written\<in>set (snd (save_code_file output_dir now now2 write code topic filename)).
          fst written = dir @ name)) \<and>
   ((\<forall>c\<in>set diagram_type. isalnum c \<or> c = CHR ''_'') \<longrightarrow>
    (let name = diagram_filename now topic diagram_type filename;
         stem = map (\<lambda>c. if isalnum c then c else CHR ''_'') (take 30 topic)
                @ ''_'' @ diagram_type @ ''_'' @ strftime_compact now;
         dir = (if output_dir = [] \<or> endswith output_dir ''/'' then output_dir
                else output_dir @ ''/'')
     in name = stem @ ''.png'' \<and>
        (\<forall>c\<in>set stem. isalnum c \<or> c = CHR ''_'') \<and>
        CHR ''/'' \<notin> set name \<and>
        (\<forall>ev\<in>set (snd (generate_diagram env output_dir now prompt topic diagram_type
                               filename)).
           case ev of
             WriteFile path bytes \<Rightarrow> path = dir @ name
           | SavePlaceholder t d path \<Rightarrow> path = dir @ name
           | Print line \<Rightarrow> True))) \<and>
   (\<forall>d\<in>{''architecture'', ''flowchart'', ''concept_map'', ''visualization''}.
      \<forall>c\<in>set d. isalnum c \<or> c = CHR ''_'')"
proof -
  assume f: "filename = None \<or> filename = Some []"
  define dir where "dir = (if output_dir = [] \<or> endswith output_dir ''/'' then output_dir
               else output_dir @ ''/'')"
  define cstem where "cstem = safe_topic topic @ ''_'' @ strftime_compact now"
  define cname where "cname = code_filename now topic filename"
  have c1: "cname = cstem @ ''.py''"
    unfolding cname_def cstem_def using code_filename_generated [OF f] by simp
  have c2: "\<forall>c\<in>set (strftime_compact now). c \<in> set ''0123456789_''"
    using stamp_chars by blast
  have c3: "\<forall>c\<in>set cstem. isalnum c \<or> c = CHR ''_''"
    unfolding cstem_def using code_stem_safe by blast
  have c4: "CHR ''/'' \<notin> set cname"
    unfolding c1 by (rule no_slash [OF c3]) simp
  have c5: "\<forall>written\<in>set (snd (save_code_file output_dir now now2 write code topic filename)).
          fst written = dir @ cname"
  proof
    fix written
    assume w: "written \<in> set (snd (save_code_file output_dir now now2 write code topic filename))"
    obtain p content where pc: "written = (p, content)" by (cases written)
    from save_code_file_paths [OF w [unfolded pc]]
    have "p = path_join output_dir cname" unfolding cname_def .
    also have "\<dots> = dir @ cname" unfolding dir_def using path_join_inside [OF c4] .
    finally show "fst written = dir @ cname" unfolding pc by simp
  qed
  have code: "cname = cstem @ ''.py'' \<and>
       (\<forall>c\<in>set (strftime_compact now). c \<in> set ''0123456789_'') \<and>
       (\<forall>c\<in>set cstem. isalnum c \<or> c = CHR ''_'') \<and>
       CHR ''/'' \<notin> set cname \<and>
       (\<forall>written\<in>set (snd (save_code_file output_dir now now2 write code topic filename)).
          fst written = dir @ cname)"
    using c1 c2 c3 c4 c5 by (intro conjI)
  define dstem where "dstem = safe_topic topic @ ''_'' @ diagram_type @ ''_'' @ strftime_compact now"
  define dname where "dname = diagram_filename now topic diagram_type filename"
  have diagram: "dname = dstem @ ''.png'' \<and>
        (\<forall>c\<in>set dstem. isalnum c \<or> c = CHR ''_'') \<and>
        CHR ''/'' \<notin> set dname \<and>
        (\<forall>ev\<in>set (snd (generate_diagram env output_dir now prompt topic diagram_type
                               filename)).
           case ev of
             WriteFile path bytes \<Rightarrow> path = dir @ dname
           | SavePlaceholder t d path \<Rightarrow> path = dir @ dname
           | Print line \<Rightarrow> True)"
    if d: "\<forall>c\<in>set diagram_type. isalnum c \<or> c = CHR ''_''"
  proof -
    have d1: "dname = dstem @ ''.png''"
      unfolding dname_def dstem_def using diagram_filename_generated [OF f] by simp
    have d3: "\<forall>c\<in>set dstem. isalnum c \<or> c = CHR ''_''"
      unfolding dstem_def using diagram_stem_safe [OF d] by blast
    have d4: "CHR ''/'' \<notin> set dname"
      unfolding d1 by (rule no_slash [OF d3]) simp
    have pj: "path_join output_dir dname = dir @ dname"
      unfolding dir_def using path_join_inside [OF d4] .
    have d5: "\<forall>ev\<in>set (snd (generate_diagram env output_dir now prompt topic diagram_type
                               filename)).
           case ev of
             WriteFile path bytes \<Rightarrow> path = dir @ dname
           | SavePlaceholder t d path \<Rightarrow> path = dir @ dname
           | Print line \<Rightarrow> True"
    proof
      fix ev
      assume "ev \<in> set (snd (generate_diagram env output_dir now prompt topic diagram_type
                               filename))"
      from generate_diagram_events [OF this, of "dir @ dname"] pj
      have "(\<exists>b. ev = WriteFile (dir @ dname) b) \<or>
            ev = SavePlaceholder topic diagram_type (dir @ dname) \<or> (\<exists>m. ev = Print m)"
        unfolding dname_def by simp
      then show "case ev of
             WriteFile path bytes \<Rightarrow> path = dir @ dname
           | SavePlaceholder t d path \<Rightarrow> path = dir @ dname
           | Print line \<Rightarrow> True"
        by (elim disjE exE) simp_all
    qed
    from d1 d3 d4 d5 show ?thesis by (intro conjI)
  qed
  have types: "\<forall>d\<in>{''architecture'', ''flowchart'', ''concept_map'', ''visualization''}.
      \<forall>c\<in>set d. isalnum c \<or> c = CHR ''_''"
    using recognized_types_safe by blast
  show ?thesis
    unfolding Let_def dir_def [symmetric] safe_topic_def [symmetric]
      cstem_def [symmetric] cname_def [symmetric] dstem_def [symmetric] dname_def [symmetric]
    by (rule conjI [OF code conjI [OF impI [OF diagram] types]])
qed

theorem derived_filenames_safe_witness:
  "code_filename (clock example_env 0) ''../etc/passwd'' None
     = ''___etc_passwd_20240517_093000.py''
   \<and> CHR ''/'' \<notin> set (code_filename (clock example_env 0) ''../etc/passwd'' None)
   \<and> diagram_filename (clock example_env 0) ''../etc/passwd'' ''concept_map'' None
     = ''___etc_passwd_concept_map_20240517_093000.png''
   \<and> CHR ''/'' \<notin> set (diagram_filename (clock example_env 0) ''../etc/passwd''
                         ''concept_map'' None)"
proof -
  have f: "(None :: string option) = None \<or> None = Some []" by simp
  have d: "\<forall>c\<in>set ''concept_map''. isalnum c \<or> c = CHR ''_''"
    by (simp add: isalnum_def)
  have s: "map (\<lambda>c. if isalnum c then c else CHR ''_'') (take 30 ''../etc/passwd'')
      = ''___etc_passwd''"
    by (simp add: isalnum_def)
  note t = derived_filenames_safe [of None "clock example_env 0" "''../etc/passwd''"
      "''/srv/code''" "clock example_env 1" "fs_write example_env" "''print(1)''"
      "''concept_map''" "image_world example_env" "''a concept map''",
      OF f, unfolded Let_def s example_stamp]
  from t have c1: "code_filename (clock example_env 0) ''../etc/passwd'' None
     = ''___etc_passwd_20240517_093000.py''" by simp
  from t have c2: "CHR ''/'' \<notin> set (code_filename (clock example_env 0) ''../etc/passwd'' None)"
    by (elim conjE)
  from t d have d1: "diagram_filename (clock example_env 0) ''../etc/passwd'' ''concept_map'' None
     = ''___etc_passwd_concept_map_20240517_093000.png''" by simp
  from t d have d2: "CHR ''/'' \<notin> set (diagram_filename (clock example_env 0) ''../etc/passwd''
                         ''concept_map'' None)" by blast
  from c1 c2 d1 d2 show ?thesis by (intro conjI)
qed

text \<open>The diagram type goes into the name as it is: with a \<open>/\<close> in it the name has a
  path separator and the placeholder is saved one directory below.\<close>

theorem derived_filenames_safe_counterexample:
  "diagram_filename (clock example_env 0) ''GANs'' ''a/b'' None
     = ''GANs_a/b_20240517_093000.png''
   \<and> CHR ''/'' \<in> set (diagram_filename (clock example_env 0) ''GANs'' ''a/b'' None)
   \<and> snd (generate_diagram (image_world example_env) ''/srv/images'' (clock example_env 0)
            ''a diagram'' ''GANs'' ''a/b'' None)
     = [Print ''Gemini image generation failed: 404 model not found'',
        SavePlaceholder ''GANs'' ''a/b'' ''/srv/images/GANs_a/b_20240517_093000.png'']"
proof -
  have n: "diagram_filename (clock example_env 0) ''GANs'' ''a/b'' None
     = ''GANs_a/b_20240517_093000.png''"
    by (simp add: diagram_filename_def example_stamp safe_topic_def isalnum_def)
  have pj: "path_join ''/srv/images'' ''GANs_a/b_20240517_093000.png''
      = ''/srv/images/GANs_a/b_20240517_093000.png''"
    by (simp add: path_join_def startswith_def endswith_def)
  have g: "snd (generate_diagram (image_world example_env) ''/srv/images'' (clock example_env 0)
            ''a diagram'' ''GANs'' ''a/b'' None)
     = [Print ''Gemini image generation failed: 404 model not found'',
        SavePlaceholder ''GANs'' ''a/b'' ''/srv/images/GANs_a/b_20240517_093000.png'']"
    unfolding generate_diagram_def Let_def n pj
    by (simp add: primary_attempt_def create_placeholder_image_def example_env_def)
  have s: "CHR ''/'' \<in> set ''GANs_a/b_20240517_093000.png''" by simp
  from n s g show ?thesis unfolding n by (intro conjI)
qed

end
